theory Spec2Isabelle
  imports Complex_Main
begin

section \<open>Strings and numbers of the host language\<close>

text \<open>
  Strings are \<^typ>\<open>string\<close>; one \<^typ>\<open>char\<close> stands for one code unit of a
  JavaScript string, so \<^const>\<open>length\<close> is \<^verbatim>\<open>.length\<close>. Code units above 255 are
  outside \<^typ>\<open>char\<close>; of the white space that \<^verbatim>\<open>trim\<close> strips, the model has the
  code units up to 255 (tab, line feed, vertical tab, form feed, carriage return,
  space, no-break space).
\<close>

definition digit_char :: "nat \<Rightarrow> char" where
  "digit_char d = ''0123456789'' ! d"

text \<open>
  The text of an integer as a template literal prints it: the decimal digits up to
  21 of them, from there on the exponent notation (\<open>1.5e+21\<close>). The model has the
  integers, so it prints every digit that is not a trailing zero; the runtime prints
  those of the nearest binary64 value.
\<close>

fun decimal :: "nat \<Rightarrow> string" where
  "decimal n =
     (if 10 \<le> n then decimal (n div 10) @ [digit_char (n mod 10)] else [digit_char n])"

declare decimal.simps [simp del]

definition exponent_text :: "string \<Rightarrow> string" where
  "exponent_text ds =
     (let significant = rev (dropWhile (\<lambda>c. c = CHR ''0'') (rev ds))
      in take 1 ds
         @ (if 1 < length significant then ''.'' @ drop 1 significant else [])
         @ ''e+'' @ decimal (length ds - 1))"

definition integer_text :: "int \<Rightarrow> string" where
  "integer_text i =
     (let ds = decimal (nat \<bar>i\<bar>)
      in (if i < 0 then ''-'' else [])
         @ (if length ds \<le> 21 then ds else exponent_text ds))"

definition is_whitespace :: "char \<Rightarrow> bool" where
  "is_whitespace c = (of_char c \<in> {9, 10, 11, 12, 13, 32, 160 :: nat})"

definition trim :: "string \<Rightarrow> string" where
  "trim s = rev (dropWhile is_whitespace (rev (dropWhile is_whitespace s)))"

fun join :: "string \<Rightarrow> string list \<Rightarrow> string" where
  "join sep [] = []"
| "join sep [x] = x"
| "join sep (x # y # ys) = x @ sep @ join sep (y # ys)"

fun split_on :: "char \<Rightarrow> string \<Rightarrow> string list" where
  "split_on d [] = [[]]"
| "split_on d (c # cs) =
     (if c = d then [] # split_on d cs
      else (case split_on d cs of [] \<Rightarrow> [[c]] | w # ws \<Rightarrow> (c # w) # ws))"

definition startsWith :: "string \<Rightarrow> string \<Rightarrow> bool" where
  "startsWith s pre = (take (length pre) s = pre)"

section \<open>Platform spec table (content-generation.ts)\<close>

record platform_spec =
  maxLength :: nat
  optimalLength :: nat
  hashtagLimit :: nat
  bestPractices :: string

definition PLATFORM_SPECS :: "(string \<times> platform_spec) list" where
  "PLATFORM_SPECS =
    [(''instagram'', \<lparr>maxLength = 2200, optimalLength = 150, hashtagLimit = 30,
        bestPractices = ''Use engaging captions, include call-to-action, leverage hashtags strategically''\<rparr>),
     (''facebook'', \<lparr>maxLength = 63206, optimalLength = 250, hashtagLimit = 10,
        bestPractices = ''Focus on storytelling, ask questions to drive engagement, use emojis sparingly''\<rparr>),
     (''twitter'', \<lparr>maxLength = 280, optimalLength = 240, hashtagLimit = 3,
        bestPractices = ''Be concise, use threads for longer content, include relevant hashtags''\<rparr>),
     (''linkedin'', \<lparr>maxLength = 3000, optimalLength = 150, hashtagLimit = 5,
        bestPractices = ''Professional tone, provide value, share insights, use line breaks for readability''\<rparr>),
     (''tiktok'', \<lparr>maxLength = 2200, optimalLength = 100, hashtagLimit = 10,
        bestPractices = ''Short, catchy, trend-aware, use popular sounds and challenges''\<rparr>)]"

text \<open>
  \<^verbatim>\<open>PLATFORM_SPECS[key]\<close> is a property read on an object literal: a key of the table
  gives its entry, a name that every object inherits from \<^verbatim>\<open>Object.prototype\<close>
  gives that inherited member (a truthy value without \<^verbatim>\<open>maxLength\<close> or
  \<^verbatim>\<open>hashtagLimit\<close>), and any other key gives \<^verbatim>\<open>undefined\<close>.
\<close>

definition Object_prototype_names :: "string list" where
  "Object_prototype_names =
    [''constructor'', ''__defineGetter__'', ''__defineSetter__'', ''hasOwnProperty'',
     ''__lookupGetter__'', ''__lookupSetter__'', ''isPrototypeOf'', ''propertyIsEnumerable'',
     ''toString'', ''valueOf'', ''__proto__'', ''toLocaleString'']"

datatype 'a property = Own 'a | Inherited | Undefined

definition get_property :: "(string \<times> 'a) list \<Rightarrow> string \<Rightarrow> 'a property" where
  "get_property obj k =
     (case map_of obj k of
        Some v \<Rightarrow> Own v
      | None \<Rightarrow> if k \<in> set Object_prototype_names then Inherited else Undefined)"

section \<open>Generated content and its validation (content-generation.ts)\<close>

text \<open>
  \<^verbatim>\<open>GeneratedContent\<close>. The hashtag list is declared \<^verbatim>\<open>string[]\<close>; the pipeline
  stores there whatever array the model's reply held, so the element type is a
  parameter. \<^verbatim>\<open>characterCount\<close> is a number; the model has the integers.
\<close>

record 'h GeneratedContent =
  body :: string
  hashtags :: "'h list option"
  imageUrl :: "string option"
  imagePrompt :: "string option"
  platform :: string
  characterCount :: int
  estimatedReadTime :: "int option"

record validation =
  isValid :: bool
  issues :: "string list"

definition validateContent :: "'h GeneratedContent \<Rightarrow> validation" where
  "validateContent content =
     (case get_property PLATFORM_SPECS (platform content) of
        Undefined \<Rightarrow>
          \<lparr>isValid = False, issues = [''Unknown platform: '' @ platform content]\<rparr>
      | found \<Rightarrow>
          (let over_length =
                 (case found of
                    Own specs \<Rightarrow>
                      if characterCount content > int (maxLength specs)
                      then [''Content exceeds '' @ platform content @ '' limit: ''
                              @ integer_text (characterCount content) @ ''/''
                              @ decimal (maxLength specs) @ '' characters'']
                      else []
                  | _ \<Rightarrow> []);
               over_tags =
                 (case (found, hashtags content) of
                    (Own specs, Some hs) \<Rightarrow>
                      if length hs > hashtagLimit specs
                      then [''Too many hashtags: '' @ decimal (length hs) @ ''/''
                              @ decimal (hashtagLimit specs)]
                      else []
                  | _ \<Rightarrow> []);
               empty_body =
                 (if body content = [] \<or> length (trim (body content)) = 0
                  then [''Content body is empty''] else []);
               found_issues = over_length @ over_tags @ empty_body
           in \<lparr>isValid = (length found_issues = 0), issues = found_issues\<rparr>))"

section \<open>Niche analysis result and its validation (niche-intelligence.ts)\<close>

record brand_voice =
  tone :: string
  bv_keywords :: "string list"
  writingStyle :: string

record target_audience =
  demographics :: string
  painPoints :: "string list"
  interests :: "string list"

record content_strategy =
  topics :: "string list"
  frequency :: int
  bestTimes :: "string list"
  platforms :: "string list"

record autopilot_config =
  enabled :: bool
  contentTypes :: "string list"
  postingSchedule :: string

record NicheAnalysisResult =
  industry :: string
  brandVoice :: brand_voice
  targetAudience :: target_audience
  competitors :: "string list"
  keywords_list :: "string list"
  contentStrategy :: content_strategy
  autopilotConfig :: autopilot_config

text \<open>
  \<^verbatim>\<open>validateAnalysis\<close>: six checks, each appending one issue. On a value of the
  declared type every member is present, so \<^verbatim>\<open>!s\<close> on a string is \<open>s = []\<close>,
  \<^verbatim>\<open>!xs\<close> on an array is false, and the optional chaining never short-circuits.
\<close>

definition validateAnalysis :: "NicheAnalysisResult \<Rightarrow> validation" where
  "validateAnalysis analysis =
     (let i1 = (if industry analysis = [] \<or> length (industry analysis) < 3
                then [''Industry classification is missing or too short''] else []);
          i2 = (if tone (brandVoice analysis) = []
                then [''Brand voice tone is missing''] else []);
          i3 = (if length (bv_keywords (brandVoice analysis)) < 3
                then [''Insufficient brand keywords''] else []);
          i4 = (if demographics (targetAudience analysis) = []
                then [''Target audience demographics missing''] else []);
          i5 = (if length (topics (contentStrategy analysis)) < 3
                then [''Insufficient content topics''] else []);
          i6 = (if length (platforms (contentStrategy analysis)) < 1
                then [''No platforms recommended''] else []);
          found_issues = i1 @ i2 @ i3 @ i4 @ i5 @ i6
      in \<lparr>isValid = (length found_issues = 0), issues = found_issues\<rparr>)"

text \<open>
  The validity condition in the words of the specification's data model: every list
  member has at least three entries and every string member is non-empty.
\<close>

definition spec_lists_and_strings_ok :: "NicheAnalysisResult \<Rightarrow> bool" where
  "spec_lists_and_strings_ok a =
     (3 \<le> length (bv_keywords (brandVoice a)) \<and>
      3 \<le> length (painPoints (targetAudience a)) \<and>
      3 \<le> length (interests (targetAudience a)) \<and>
      3 \<le> length (competitors a) \<and>
      3 \<le> length (keywords_list a) \<and>
      3 \<le> length (topics (contentStrategy a)) \<and>
      3 \<le> length (bestTimes (contentStrategy a)) \<and>
      3 \<le> length (platforms (contentStrategy a)) \<and>
      3 \<le> length (contentTypes (autopilotConfig a)) \<and>
      industry a \<noteq> [] \<and>
      tone (brandVoice a) \<noteq> [] \<and>
      writingStyle (brandVoice a) \<noteq> [] \<and>
      demographics (targetAudience a) \<noteq> [] \<and>
      postingSchedule (autopilotConfig a) \<noteq> [])"

section \<open>Exceptions and asynchronous calls\<close>

text \<open>
  A thrown value is an \<^verbatim>\<open>Error\<close> object (with the name of its class and its
  message) or some other value. An asynchronous call that rejects and a statement
  that throws are both \<open>Inl\<close>; \<open>await\<close> passes a rejection on, \<open>try_catch\<close> hands
  it to the handler.
\<close>

datatype thrown = ErrorObject (error_name: string) (message_of: string) | NonError

definition Error :: "string \<Rightarrow> thrown" where
  "Error msg = ErrorObject ''Error'' msg"

definition TypeError :: "string \<Rightarrow> thrown" where
  "TypeError msg = ErrorObject ''TypeError'' msg"

definition SyntaxError :: "string \<Rightarrow> thrown" where
  "SyntaxError msg = ErrorObject ''SyntaxError'' msg"

text \<open>\<^verbatim>\<open>error instanceof Error ? error.message : "Unknown error"\<close>\<close>

definition error_message :: "thrown \<Rightarrow> string" where
  "error_message e = (case e of ErrorObject _ m \<Rightarrow> m | NonError \<Rightarrow> ''Unknown error'')"

text \<open>The runtime's message for a member read on \<^verbatim>\<open>null\<close> or \<^verbatim>\<open>undefined\<close>.\<close>

definition cannot_read :: "string \<Rightarrow> string \<Rightarrow> string" where
  "cannot_read what key =
     ''Cannot read properties of '' @ what @ '' (reading '' @ [CHR 0x27] @ key @ [CHR 0x27] @ '')''"

definition await :: "thrown + 'a \<Rightarrow> ('a \<Rightarrow> thrown + 'b) \<Rightarrow> thrown + 'b" where
  "await r k = (case r of Inl e \<Rightarrow> Inl e | Inr v \<Rightarrow> k v)"

definition try_catch :: "thrown + 'a \<Rightarrow> (thrown \<Rightarrow> thrown + 'a) \<Rightarrow> thrown + 'a" where
  "try_catch r handler = (case r of Inl e \<Rightarrow> handler e | Inr v \<Rightarrow> Inr v)"

section \<open>JSON values as the program reads them\<close>

text \<open>
  The value that \<^verbatim>\<open>JSON.parse\<close> returns. An object is the list of its own
  members, each key once. Numbers are kept exact; rounding to binary64 is not
  modelled.
\<close>

datatype json =
    JNull
  | JBool bool
  | JNum real
  | JStr string
  | JArr "json list"
  | JObj "(string \<times> json) list"

fun truthy :: "json \<Rightarrow> bool" where
  "truthy JNull = False"
| "truthy (JBool b) = b"
| "truthy (JNum x) = (x \<noteq> 0)"
| "truthy (JStr s) = (s \<noteq> [])"
| "truthy (JArr xs) = True"
| "truthy (JObj ms) = True"

text \<open>
  \<^verbatim>\<open>value.key\<close> for the keys the program reads (\<^verbatim>\<open>body\<close>, \<^verbatim>\<open>hashtags\<close>), which no
  prototype defines: a member of an object, \<^verbatim>\<open>undefined\<close> (\<open>None\<close>) on anything
  else, a \<^verbatim>\<open>TypeError\<close> on \<^verbatim>\<open>null\<close>.
\<close>

fun read_member :: "json \<Rightarrow> string \<Rightarrow> thrown + json option" where
  "read_member JNull k =
     Inl (TypeError (cannot_read ''null'' k))"
| "read_member (JObj ms) k = Inr (map_of ms k)"
| "read_member v k = Inr None"

text \<open>\<^verbatim>\<open>x || d\<close> on a value that may be \<^verbatim>\<open>undefined\<close>.\<close>

definition or_default :: "json option \<Rightarrow> json \<Rightarrow> json" where
  "or_default x d = (case x of Some v \<Rightarrow> if truthy v then v else d | None \<Rightarrow> d)"

text \<open>
  The text of an array element inside \<^verbatim>\<open>Array.prototype.join\<close>: \<^verbatim>\<open>null\<close> gives the
  empty string, a nested array is joined with commas. The text of a number is the
  runtime's (\<open>num\<close>).
\<close>

fun join_element :: "(real \<Rightarrow> string) \<Rightarrow> json \<Rightarrow> string" where
  "join_element num JNull = []"
| "join_element num (JBool b) = (if b then ''true'' else ''false'')"
| "join_element num (JNum x) = num x"
| "join_element num (JStr s) = s"
| "join_element num (JArr xs) = join '','' (map (join_element num) xs)"
| "join_element num (JObj ms) = ''[object Object]''"

text \<open>
  \<^verbatim>\<open>text.match(/\{[\s\S]*\}/)\<close>: the leftmost match of a greedy pattern, which runs
  from the first opening brace to the last closing brace after it.
\<close>

definition match_braces :: "string \<Rightarrow> string option" where
  "match_braces text =
     (case dropWhile (\<lambda>c. c \<noteq> CHR ''{'') text of
        [] \<Rightarrow> None
      | open_brace # after \<Rightarrow>
          (case dropWhile (\<lambda>c. c \<noteq> CHR ''}'') (rev after) of
             [] \<Rightarrow> None
           | upto_close \<Rightarrow> Some (open_brace # rev upto_close)))"

section \<open>Content generation (content-generation.ts)\<close>

record niche_context =
  nc_industry :: "string option"
  nc_brandVoice :: "json option"
  nc_keywords :: "string list option"
  nc_targetAudience :: "json option"

text \<open>
  \<^verbatim>\<open>ContentGenerationRequest\<close>. The platform is declared as one of five literals; at
  run time it is a string, and the table lookup decides what happens with any other.
\<close>

record ContentGenerationRequest =
  topic :: string
  req_platform :: string
  req_tone :: "string option"
  includeImage :: bool
  imageStyle :: "string option"
  nicheContext :: "niche_context option"

text \<open>
  The content of the first choice's message: a string, some other value (content
  parts), or nothing.
\<close>

datatype llm_content = ContentText string | ContentValue json | ContentNone

text \<open>
  What the service gets from outside: the model call (from the user prompt to a
  rejection or the contents of the returned choices), the runtime's \<^verbatim>\<open>JSON.parse\<close>,
  \<^verbatim>\<open>JSON.stringify\<close> and number formatting, the image key of the environment and
  the image call (from the prompt to a rejection or the \<^verbatim>\<open>url\<close> members of
  \<^verbatim>\<open>response.data\<close>, when there is a \<^verbatim>\<open>data\<close>).
\<close>

record cg_env =
  invokeLLM :: "string \<Rightarrow> thrown + llm_content list"
  JSON_parse :: "string \<Rightarrow> thrown + json"
  JSON_stringify :: "json \<Rightarrow> string"
  Number_toString :: "real \<Rightarrow> string"
  OPENAI_API_KEY :: "string option"
  images_generate :: "string \<Rightarrow> thrown + string option list option"

text \<open>\<^verbatim>\<open>toUpperCase\<close> on the letters a to z, which is all the platform keys hold.\<close>

definition toUpperCase :: "string \<Rightarrow> string" where
  "toUpperCase s =
     map (\<lambda>c. if 97 \<le> (of_char c :: nat) \<and> (of_char c :: nat) \<le> 122
              then char_of ((of_char c :: nat) - 32) else c) s"

definition nicheContextStr :: "cg_env \<Rightarrow> niche_context option \<Rightarrow> string" where
  "nicheContextStr env nc_opt =
     (case nc_opt of
        None \<Rightarrow> []
      | Some nc \<Rightarrow>
          ''\<newline>Brand Context:\<newline>- Industry: ''
          @ (case nc_industry nc of Some i \<Rightarrow> if i \<noteq> [] then i else ''General'' | None \<Rightarrow> ''General'')
          @ ''\<newline>- Brand Voice: '' @ JSON_stringify env (or_default (nc_brandVoice nc) (JObj []))
          @ ''\<newline>- Target Audience: '' @ JSON_stringify env (or_default (nc_targetAudience nc) (JObj []))
          @ ''\<newline>- Keywords: ''
          @ (case nc_keywords nc of
               Some ks \<Rightarrow> if join '', '' ks \<noteq> [] then join '', '' ks else ''None''
             | None \<Rightarrow> ''None'')
          @ ''\<newline>'')"

text \<open>
  The prompt. Reading \<^verbatim>\<open>specs.maxLength\<close> comes first among the reads of
  \<^verbatim>\<open>specs\<close>: on \<^verbatim>\<open>undefined\<close> it throws, on an inherited member it gives
  \<^verbatim>\<open>undefined\<close>, printed as such.
\<close>

definition spec_field :: "platform_spec property \<Rightarrow> (platform_spec \<Rightarrow> string) \<Rightarrow> string" where
  "spec_field specs f = (case specs of Own sp \<Rightarrow> f sp | _ \<Rightarrow> ''undefined'')"

definition build_prompt ::
  "cg_env \<Rightarrow> ContentGenerationRequest \<Rightarrow> platform_spec property \<Rightarrow> string \<Rightarrow> thrown + string" where
  \<open>build_prompt env request specs tone_used =
     (case specs of
        Undefined \<Rightarrow>
          Inl (TypeError (cannot_read ''undefined'' ''maxLength''))
      | _ \<Rightarrow>
          Inr (''You are an expert social media content creator. Generate engaging ''
            @ req_platform request @ '' content about the following topic.\<newline>\<newline>Topic: ''
            @ topic request @ ''\<newline>\<newline>''
            @ nicheContextStr env (nicheContext request)
            @ ''\<newline>\<newline>Platform: '' @ toUpperCase (req_platform request)
            @ ''\<newline>Tone: '' @ tone_used
            @ ''\<newline>Character Limit: '' @ spec_field specs (\<lambda>sp. decimal (maxLength sp))
            @ '' (optimal: '' @ spec_field specs (\<lambda>sp. decimal (optimalLength sp)) @ '')''
            @ ''\<newline>Hashtag Limit: '' @ spec_field specs (\<lambda>sp. decimal (hashtagLimit sp))
            @ ''\<newline>Best Practices: '' @ spec_field specs bestPractices
            @ ''\<newline>\<newline>Requirements:\<newline>1. Create compelling, '' @ tone_used
            @ '' content that resonates with the target audience''
            @ ''\<newline>2. Stay within the optimal character count (''
            @ spec_field specs (\<lambda>sp. decimal (optimalLength sp)) @ '' characters)''
            @ ''\<newline>3. Include '' @ spec_field specs (\<lambda>sp. decimal (hashtagLimit sp))
            @ '' relevant hashtags at the end''
            @ ''\<newline>4. Follow '' @ req_platform request @ '' best practices''
            @ ''\<newline>5. Make it engaging and actionable\<newline>''
            @ (case nicheContext request of
                 Some nc \<Rightarrow>
                   (case nc_brandVoice nc of
                      Some bv \<Rightarrow>
                        if truthy bv
                        then ''6. Match the brand voice: '' @ JSON_stringify env bv
                        else []
                    | None \<Rightarrow> [])
               | None \<Rightarrow> [])
            @ ''\<newline>\<newline>Return ONLY a JSON object with this exact structure:\<newline>{\<newline>''
            @ ''  "body": "The main content text without hashtags",\<newline>''
            @ ''  "hashtags": ["hashtag1", "hashtag2", "hashtag3"]\<newline>}\<newline>\<newline>''
            @ ''Do not include any markdown formatting, code blocks, or explanatory text. ''
            @ ''Just the raw JSON object.''))\<close>

text \<open>
  The two parsing attempts, as in \<^verbatim>\<open>generateContent\<close> and \<^verbatim>\<open>analyzeNiche\<close>: the raw
  text first; when that throws, the brace match, whose parse may throw in turn; with
  no match, an error with the caller's message.
\<close>

definition parse_reply :: "cg_env \<Rightarrow> string \<Rightarrow> string \<Rightarrow> thrown + json" where
  "parse_reply env no_match_message text =
     try_catch (JSON_parse env text)
       (\<lambda>e. case match_braces text of
               Some jsonMatch \<Rightarrow> JSON_parse env jsonMatch
             | None \<Rightarrow> Inl (Error no_match_message))"

definition parsedContent :: "cg_env \<Rightarrow> string \<Rightarrow> thrown + json" where
  "parsedContent env text = parse_reply env ''Could not parse Claude response as JSON'' text"

definition analysis_of_reply :: "cg_env \<Rightarrow> string \<Rightarrow> thrown + json" where
  "analysis_of_reply env text = parse_reply env ''Could not parse Claude analysis as JSON'' text"

definition content_truthy :: "llm_content \<Rightarrow> bool" where
  "content_truthy c =
     (case c of ContentText s \<Rightarrow> s \<noteq> [] | ContentValue v \<Rightarrow> truthy v | ContentNone \<Rightarrow> False)"

text \<open>\<^verbatim>\<open>typeof content === 'string' ? content : JSON.stringify(content)\<close>, on a truthy content.\<close>

definition content_text :: "cg_env \<Rightarrow> llm_content \<Rightarrow> string" where
  "content_text env c =
     (case c of ContentText s \<Rightarrow> s | ContentValue v \<Rightarrow> JSON_stringify env v | ContentNone \<Rightarrow> [])"

text \<open>
  The part of \<^verbatim>\<open>generateContent\<close> after the parse. \<^verbatim>\<open>hashtags.join\<close> exists on
  arrays only and \<^verbatim>\<open>body.split\<close> on strings only; the join is evaluated first.
  \<^verbatim>\<open>Math.ceil(n / 200)\<close> for a count \<open>n\<close> is \<open>(n + 199) div 200\<close>.
\<close>

definition content_of_parsed ::
  "cg_env \<Rightarrow> string \<Rightarrow> json \<Rightarrow> thrown + json GeneratedContent" where
  "content_of_parsed env platform_key parsed =
     await (read_member parsed ''body'') (\<lambda>b.
     await (read_member parsed ''hashtags'') (\<lambda>h.
       let body_value = or_default b (JStr []);
           hashtags_value = or_default h (JArr [])
       in (case hashtags_value of
             JArr tags \<Rightarrow>
               (case body_value of
                  JStr text \<Rightarrow>
                    (let totalLength =
                           length text
                           + length (join '' '' (map (join_element (Number_toString env)) tags))
                     in Inr \<lparr>body = text, hashtags = Some tags, imageUrl = None,
                             imagePrompt = None, platform = platform_key,
                             characterCount = int totalLength,
                             estimatedReadTime =
                               Some (int ((length (split_on CHR '' '' text) + 199) div 200))\<rparr>)
                | _ \<Rightarrow> Inl (TypeError ''body.split is not a function''))
           | _ \<Rightarrow> Inl (TypeError ''hashtags.join is not a function''))))"

definition generateContent_try ::
  "cg_env \<Rightarrow> ContentGenerationRequest \<Rightarrow> string \<Rightarrow> thrown + json GeneratedContent" where
  "generateContent_try env request prompt =
     await (invokeLLM env prompt) (\<lambda>choices.
     await (case choices of
              [] \<Rightarrow> Inl (TypeError (cannot_read ''undefined'' ''message''))
            | c # _ \<Rightarrow> Inr c) (\<lambda>content.
       if \<not> content_truthy content then Inl (Error ''Empty response from Claude'')
       else await (parsedContent env (content_text env content))
              (content_of_parsed env (req_platform request))))"

text \<open>
  The start of \<^verbatim>\<open>generateContent\<close>, outside its \<^verbatim>\<open>try\<close> block: the default tone,
  the table lookup and the prompt.
\<close>

definition prompt_for :: "cg_env \<Rightarrow> ContentGenerationRequest \<Rightarrow> thrown + string" where
  "prompt_for env request =
     (let tone_used = (case req_tone request of None \<Rightarrow> ''professional'' | Some t \<Rightarrow> t);
          specs = get_property PLATFORM_SPECS (req_platform request)
      in build_prompt env request specs tone_used)"

definition generateContent ::
  "cg_env \<Rightarrow> ContentGenerationRequest \<Rightarrow> thrown + json GeneratedContent" where
  "generateContent env request =
     await (prompt_for env request) (\<lambda>prompt.
       try_catch (generateContent_try env request prompt)
         (\<lambda>error. Inl (Error (''Content generation failed: '' @ error_message error))))"

text \<open>\<^verbatim>\<open>response.data?.[0]?.url || null\<close>\<close>

definition first_url :: "string option list option \<Rightarrow> string option" where
  "first_url data =
     (case data of
        Some (Some u # _) \<Rightarrow> if u \<noteq> [] then Some u else None
      | _ \<Rightarrow> None)"

text \<open>The prompt sent to the image service; the style defaults to \<open>natural\<close>.\<close>

definition image_service_prompt :: "string \<Rightarrow> string option \<Rightarrow> string" where
  "image_service_prompt prompt style_opt =
     prompt @ ''. Style: '' @ (case style_opt of None \<Rightarrow> ''natural'' | Some st \<Rightarrow> st)
     @ ''. High quality, professional, suitable for social media.''"

definition generateImage :: "cg_env \<Rightarrow> string \<Rightarrow> string option \<Rightarrow> thrown + string option" where
  "generateImage env prompt style_opt =
     (if OPENAI_API_KEY env = None \<or> OPENAI_API_KEY env = Some [] then Inr None
      else try_catch
             (await (images_generate env (image_service_prompt prompt style_opt))
                (\<lambda>data. Inr (first_url data)))
             (\<lambda>error. Inr None))"

text \<open>\<^verbatim>\<open>request.imageStyle ? `${request.topic}. ${request.imageStyle}` : request.topic\<close>\<close>

definition image_prompt_of :: "ContentGenerationRequest \<Rightarrow> string" where
  "image_prompt_of request =
     (case imageStyle request of
        Some st \<Rightarrow> if st \<noteq> [] then topic request @ ''. '' @ st else topic request
      | None \<Rightarrow> topic request)"

definition generateContentWithImage ::
  "cg_env \<Rightarrow> ContentGenerationRequest \<Rightarrow> thrown + json GeneratedContent" where
  "generateContentWithImage env request =
     await (generateContent env request) (\<lambda>content.
       if includeImage request then
         await (generateImage env (image_prompt_of request) (imageStyle request)) (\<lambda>url.
           Inr (content\<lparr>imageUrl := url, imagePrompt := Some (image_prompt_of request)\<rparr>))
       else Inr content)"

section \<open>Job queue (job-queue.ts)\<close>

text \<open>
  A job as the broker hands it out: its id (which may be missing), the outcome of
  \<^verbatim>\<open>getState()\<close>, and the members \<^verbatim>\<open>returnvalue\<close> and \<^verbatim>\<open>failedReason\<close>. The
  promise of \<^verbatim>\<open>getState()\<close> resolves, rejects, or never settles (\<open>None\<close>).
\<close>

record broker_job =
  job_id :: "string option"
  getState :: "(thrown + string) option"
  returnvalue :: "json option"
  failedReason :: "string option"

text \<open>
  The surroundings of the queue module: whether \<^verbatim>\<open>REDIS_HOST\<close> or \<^verbatim>\<open>REDIS_URL\<close> is
  set, whether the queue library was loaded (\<^verbatim>\<open>Queue\<close> is defined), what constructing
  a queue of a given name does, what \<^verbatim>\<open>queue.add\<close> (queue, job name, data, attempts,
  backoff delay) and \<^verbatim>\<open>queue.getJob\<close> (queue, id) do, and the clock. The code sets
  no time limit on the broker; the promise of \<^verbatim>\<open>getJob\<close> resolves, rejects, or never
  settles (\<open>None\<close>), as on a broker that does not answer. Of \<^verbatim>\<open>queue.add\<close> the
  model has the settled outcomes, the ones the submit path branches on.
\<close>

record jq_env =
  REDIS_AVAILABLE :: bool
  Queue_loaded :: bool
  Queue_new :: "string \<Rightarrow> thrown option"
  queue_add :: "string \<Rightarrow> string \<Rightarrow> ContentGenerationRequest \<Rightarrow> nat \<Rightarrow> nat \<Rightarrow> thrown + broker_job"
  queue_getJob :: "string \<Rightarrow> string \<Rightarrow> (thrown + broker_job option) option"
  Date_now :: nat

definition perform :: "thrown option \<Rightarrow> thrown + unit" where
  "perform r = (case r of None \<Rightarrow> Inr () | Some e \<Rightarrow> Inl e)"

record submitted =
  jobId :: string
  result :: "json GeneratedContent option"

definition executeContentGeneration ::
  "cg_env \<Rightarrow> ContentGenerationRequest \<Rightarrow> thrown + json GeneratedContent" where
  "executeContentGeneration env data = generateContentWithImage env data"

definition direct_execution ::
  "jq_env \<Rightarrow> cg_env \<Rightarrow> ContentGenerationRequest \<Rightarrow> thrown + submitted" where
  "direct_execution q env data =
     await (executeContentGeneration env data) (\<lambda>r.
       Inr \<lparr>jobId = ''direct-'' @ decimal (Date_now q), result = Some r\<rparr>)"

definition addContentGenerationJob ::
  "jq_env \<Rightarrow> cg_env \<Rightarrow> ContentGenerationRequest \<Rightarrow> thrown + submitted" where
  "addContentGenerationJob q env data =
     (if \<not> REDIS_AVAILABLE q \<or> \<not> Queue_loaded q then direct_execution q env data
      else try_catch
             (await (perform (Queue_new q ''content-generation'')) (\<lambda>_.
              await (queue_add q ''content-generation'' ''generate'' data 3 2000) (\<lambda>job.
                Inr \<lparr>jobId = (case job_id job of
                                 Some i \<Rightarrow> if i \<noteq> [] then i
                                           else ''job-'' @ decimal (Date_now q)
                               | None \<Rightarrow> ''job-'' @ decimal (Date_now q)),
                      result = None\<rparr>)))
             (\<lambda>error. direct_execution q env data))"

record job_status =
  status :: string
  job_result :: "json option"
  job_error :: "string option"

text \<open>The status values of the declared return type of \<^verbatim>\<open>getJobStatus\<close>.\<close>

definition declared_statuses :: "string list" where
  "declared_statuses = [''completed'', ''failed'', ''active'', ''waiting'', ''unknown'']"

text \<open>
  Awaiting a promise that may never settle: the function that awaits it then never
  returns, which is \<open>None\<close>.
\<close>

definition await_settled ::
  "(thrown + 'a) option \<Rightarrow> ('a \<Rightarrow> (thrown + 'b) option) \<Rightarrow> (thrown + 'b) option" where
  "await_settled p k =
     (case p of None \<Rightarrow> None | Some (Inl e) \<Rightarrow> Some (Inl e) | Some (Inr v) \<Rightarrow> k v)"

definition getJobStatus_try ::
  "jq_env \<Rightarrow> string \<Rightarrow> string \<Rightarrow> (thrown + job_status) option" where
  "getJobStatus_try q queueName job_key =
     (case Queue_new q queueName of
        Some e \<Rightarrow> Some (Inl e)
      | None \<Rightarrow>
          await_settled (queue_getJob q queueName job_key) (\<lambda>found.
            case found of
              None \<Rightarrow>
                Some (Inr \<lparr>status = ''unknown'', job_result = None,
                           job_error = Some ''Job not found''\<rparr>)
            | Some job \<Rightarrow>
                await_settled (getState job) (\<lambda>state.
                  Some (Inr \<lparr>status = state, job_result = returnvalue job,
                             job_error = failedReason job\<rparr>))))"

text \<open>
  \<^verbatim>\<open>getJobStatus\<close>: \<open>None\<close> when the call never returns, \<open>Some (Inl e)\<close> when it
  raises, \<open>Some (Inr r)\<close> when it returns the record \<open>r\<close>.
\<close>

definition getJobStatus ::
  "jq_env \<Rightarrow> string \<Rightarrow> string \<Rightarrow> (thrown + job_status) option" where
  "getJobStatus q queueName job_key =
     (if startsWith job_key ''direct-''
      then Some (Inr \<lparr>status = ''completed'',
                job_result = Some (JObj [(''message'', JStr ''Job executed directly (no Redis queue)'')]),
                job_error = None\<rparr>)
      else if \<not> REDIS_AVAILABLE q \<or> \<not> Queue_loaded q
      then Some (Inr \<lparr>status = ''unknown'', job_result = None,
                      job_error = Some ''Redis not available''\<rparr>)
      else (case getJobStatus_try q queueName job_key of
              None \<Rightarrow> None
            | Some (Inr r) \<Rightarrow> Some (Inr r)
            | Some (Inl error) \<Rightarrow>
                Some (Inr \<lparr>status = ''unknown'', job_result = None,
                           job_error = Some (error_message error)\<rparr>)))"

section \<open>Page scraper (niche-intelligence.ts)\<close>

record ScrapedSite =
  html :: string
  page_text :: string
  title :: string
  meta :: "(string \<times> string) list"
  links :: "string list"

text \<open>
  One run of the headless browser, as the scraper meets it: what each call does.
  \<^verbatim>\<open>browser.close()\<close> may be called twice, so its outcome depends on the call's
  number. A \<^verbatim>\<open>meta\<close> element is its \<^verbatim>\<open>name\<close>, \<^verbatim>\<open>property\<close> and \<^verbatim>\<open>content\<close>
  attributes.
\<close>

record browser_run =
  launch :: "thrown option"
  newPage :: "thrown option"
  setUserAgent :: "thrown option"
  goto :: "string \<Rightarrow> thrown option"
  page_content :: "thrown + string"
  page_title :: "thrown + string"
  meta_elements :: "thrown + (string option \<times> string option \<times> string option) list"
  innerText :: "thrown + string"
  anchor_hrefs :: "thrown + string list"
  browser_close :: "nat \<Rightarrow> thrown option"

fun set_member :: "string \<Rightarrow> 'a \<Rightarrow> (string \<times> 'a) list \<Rightarrow> (string \<times> 'a) list" where
  "set_member k v [] = [(k, v)]"
| "set_member k v ((k', v') # ms) =
     (if k' = k then (k, v) # ms else (k', v') # set_member k v ms)"

text \<open>\<^verbatim>\<open>a || b || ""\<close> on attribute values.\<close>

definition first_nonempty :: "string option list \<Rightarrow> string" where
  "first_nonempty xs =
     (case filter (\<lambda>x. x \<noteq> None \<and> x \<noteq> Some []) xs of Some v # _ \<Rightarrow> v | _ \<Rightarrow> [])"

text \<open>
  \<^verbatim>\<open>meta[tag.name] = tag.content\<close> on a plain object; under the name \<^verbatim>\<open>__proto__\<close>
  the assignment stores no member.
\<close>

definition meta_of_elements ::
  "(string option \<times> string option \<times> string option) list \<Rightarrow> (string \<times> string) list" where
  "meta_of_elements els =
     foldl (\<lambda>m (n, p, c).
              let tag_name = first_nonempty [n, p]; tag_content = first_nonempty [c]
              in if tag_name \<noteq> [] \<and> tag_content \<noteq> [] \<and> tag_name \<noteq> ''__proto__''
                 then set_member tag_name tag_content m else m)
       [] els"

text \<open>\<^verbatim>\<open>[...new Set(links)]\<close>: each link once, at its first place.\<close>

definition unique :: "'a list \<Rightarrow> 'a list" where
  "unique xs = rev (remdups (rev xs))"

definition scrape_page :: "browser_run \<Rightarrow> string \<Rightarrow> thrown + ScrapedSite" where
  "scrape_page run url =
     await (perform (newPage run)) (\<lambda>_.
     await (perform (setUserAgent run)) (\<lambda>_.
     await (perform (goto run url)) (\<lambda>_.
     await (page_content run) (\<lambda>h.
     await (page_title run) (\<lambda>t.
     await (meta_elements run) (\<lambda>els.
     await (innerText run) (\<lambda>txt.
     await (anchor_hrefs run) (\<lambda>hrefs.
       Inr \<lparr>html = h, page_text = take 50000 txt, title = t,
            meta = meta_of_elements els,
            links = take 50 (unique (filter (\<lambda>href. href \<noteq> [] \<and> startsWith href ''http'') hrefs))\<rparr>))))))))"

definition scrape_failure :: "thrown \<Rightarrow> thrown" where
  "scrape_failure e = Error (''Failed to scrape website: '' @ error_message e)"

text \<open>
  The browser processes of the machine: how many are alive, and how many times
  \<^verbatim>\<open>browser.close()\<close> has been called. A launch that succeeds starts a process. A
  \<^verbatim>\<open>close()\<close> that resolves ends one; a \<^verbatim>\<open>close()\<close> that rejects is taken to leave
  it alive. Only these two calls change the count.
\<close>

record browsers =
  alive :: nat
  close_calls :: nat

definition puppeteer_launch :: "browser_run \<Rightarrow> browsers \<Rightarrow> (thrown + unit) \<times> browsers" where
  "puppeteer_launch run st =
     (case launch run of
        Some e \<Rightarrow> (Inl e, st)
      | None \<Rightarrow> (Inr (), st\<lparr>alive := Suc (alive st)\<rparr>))"

definition close_browser :: "browser_run \<Rightarrow> browsers \<Rightarrow> (thrown + unit) \<times> browsers" where
  "close_browser run st =
     (case browser_close run (close_calls st) of
        None \<Rightarrow> (Inr (), st\<lparr>alive := alive st - 1, close_calls := Suc (close_calls st)\<rparr>)
      | Some e \<Rightarrow> (Inl e, st\<lparr>close_calls := Suc (close_calls st)\<rparr>))"

text \<open>
  The \<^verbatim>\<open>catch\<close> block of \<^verbatim>\<open>scrapeWebsite\<close>: it closes the browser when \<^verbatim>\<open>browser\<close>
  is defined, then throws the wrapped error; a rejection of that \<^verbatim>\<open>close()\<close> leaves
  the function as it is.
\<close>

definition scrape_catch ::
  "browser_run \<Rightarrow> bool \<Rightarrow> thrown \<Rightarrow> browsers \<Rightarrow> (thrown + ScrapedSite) \<times> browsers" where
  "scrape_catch run browser_defined e st =
     (if browser_defined then
        (case close_browser run st of
           (Inr u, st') \<Rightarrow> (Inl (scrape_failure e), st')
         | (Inl e', st') \<Rightarrow> (Inl e', st'))
      else (Inl (scrape_failure e), st))"

text \<open>
  \<^verbatim>\<open>scrapeWebsite\<close>, from the browser processes before the call to its outcome and
  the processes after. A launch that fails leaves \<^verbatim>\<open>browser\<close> undefined. A rejection
  of the \<^verbatim>\<open>close()\<close> at the end of the \<^verbatim>\<open>try\<close> block reaches the \<^verbatim>\<open>catch\<close> block,
  which closes again.
\<close>

definition scrapeWebsite ::
  "browser_run \<Rightarrow> string \<Rightarrow> browsers \<Rightarrow> (thrown + ScrapedSite) \<times> browsers" where
  "scrapeWebsite run url st =
     (case puppeteer_launch run st of
        (Inl e, st1) \<Rightarrow> scrape_catch run False e st1
      | (Inr u, st1) \<Rightarrow>
          (case scrape_page run url of
             Inl e \<Rightarrow> scrape_catch run True e st1
           | Inr site \<Rightarrow>
               (case close_browser run st1 of
                  (Inr u', st2) \<Rightarrow> (Inr site, st2)
                | (Inl e, st2) \<Rightarrow> scrape_catch run True e st2)))"

section \<open>A JSON reader for concrete runs\<close>

text \<open>
  \<^verbatim>\<open>JSON.parse\<close> belongs to the runtime and is a parameter of the model. To run the
  model on a concrete reply, this reader stands in for it: the JSON grammar (white
  space, literals, numbers, strings with the single-character escapes, arrays,
  objects, a repeated key keeping its last value), without \<^verbatim>\<open>\u\<close> escapes. The
  first argument of the recursive functions bounds the nesting depth and starts above
  the length of the text. A text it rejects gives a \<^verbatim>\<open>SyntaxError\<close>; the message is
  a placeholder for the runtime's.
\<close>

definition is_json_space :: "char \<Rightarrow> bool" where
  "is_json_space c = (of_char c \<in> {32, 9, 10, 13 :: nat})"

definition is_digit :: "char \<Rightarrow> bool" where
  "is_digit c = (48 \<le> (of_char c :: nat) \<and> (of_char c :: nat) \<le> 57)"

definition digit_value :: "char \<Rightarrow> nat" where
  "digit_value c = of_char c - 48"

definition number_of_digits :: "string \<Rightarrow> nat" where
  "number_of_digits ds = foldl (\<lambda>n d. 10 * n + digit_value d) 0 ds"

definition unescape :: "char \<Rightarrow> char option" where
  "unescape c =
     (if c = CHR 0x22 \<or> c = CHR 0x5C \<or> c = CHR ''/'' then Some c
      else if c = CHR ''n'' then Some (CHR 0x0A)
      else if c = CHR ''t'' then Some (CHR 0x09)
      else if c = CHR ''r'' then Some (CHR 0x0D)
      else if c = CHR ''b'' then Some (CHR 0x08)
      else if c = CHR ''f'' then Some (CHR 0x0C)
      else None)"

fun lex_string :: "string \<Rightarrow> (string \<times> string) option" where
  "lex_string [] = None"
| "lex_string [c] = (if c = CHR 0x22 then Some ([], []) else None)"
| "lex_string (c # d # cs) =
     (if c = CHR 0x22 then Some ([], d # cs)
      else if c = CHR 0x5C then
        (case unescape d of
           None \<Rightarrow> None
         | Some ch \<Rightarrow> map_option (\<lambda>(s, r). (ch # s, r)) (lex_string cs))
      else if (of_char c :: nat) < 32 then None
      else map_option (\<lambda>(s, r). (c # s, r)) (lex_string (d # cs)))"

definition lex_number :: "string \<Rightarrow> (real \<times> string) option" where
  "lex_number s =
     (let negative = (s \<noteq> [] \<and> hd s = CHR ''-'');
          s1 = (if negative then tl s else s);
          int_digits = takeWhile is_digit s1;
          s2 = dropWhile is_digit s1;
          has_frac = (s2 \<noteq> [] \<and> hd s2 = CHR ''.'');
          frac_digits = (if has_frac then takeWhile is_digit (tl s2) else []);
          s3 = (if has_frac then dropWhile is_digit (tl s2) else s2);
          has_exp = (s3 \<noteq> [] \<and> (hd s3 = CHR ''e'' \<or> hd s3 = CHR ''E''));
          s4 = (if has_exp then tl s3 else s3);
          exp_negative = (has_exp \<and> s4 \<noteq> [] \<and> hd s4 = CHR ''-'');
          s5 = (if has_exp \<and> s4 \<noteq> [] \<and> (hd s4 = CHR ''-'' \<or> hd s4 = CHR ''+'') then tl s4 else s4);
          exp_digits = (if has_exp then takeWhile is_digit s5 else []);
          s6 = (if has_exp then dropWhile is_digit s5 else s5);
          mantissa = real (number_of_digits int_digits)
                     + real (number_of_digits frac_digits) / 10 ^ length frac_digits;
          scaled = (if exp_negative then mantissa / 10 ^ number_of_digits exp_digits
                    else mantissa * 10 ^ number_of_digits exp_digits)
      in if int_digits = [] \<or> (length int_digits > 1 \<and> hd int_digits = CHR ''0'')
            \<or> (has_frac \<and> frac_digits = []) \<or> (has_exp \<and> exp_digits = [])
         then None
         else Some (if negative then - scaled else scaled, s6))"

fun parse_value :: "nat \<Rightarrow> string \<Rightarrow> (json \<times> string) option"
  and parse_elements :: "nat \<Rightarrow> string \<Rightarrow> (json list \<times> string) option"
  and parse_members :: "nat \<Rightarrow> string \<Rightarrow> ((string \<times> json) list \<times> string) option"
where
  "parse_value 0 s = None"
| "parse_value (Suc n) s =
     (case dropWhile is_json_space s of
        [] \<Rightarrow> None
      | c # cs \<Rightarrow>
          if c = CHR ''{'' then
            (case dropWhile is_json_space cs of
               [] \<Rightarrow> None
             | d # ds \<Rightarrow>
                 if d = CHR ''}'' then Some (JObj [], ds)
                 else map_option (\<lambda>(ms, r). (JObj ms, r)) (parse_members n cs))
          else if c = CHR ''['' then
            (case dropWhile is_json_space cs of
               [] \<Rightarrow> None
             | d # ds \<Rightarrow>
                 if d = CHR '']'' then Some (JArr [], ds)
                 else map_option (\<lambda>(vs, r). (JArr vs, r)) (parse_elements n cs))
          else if c = CHR 0x22 then map_option (\<lambda>(t, r). (JStr t, r)) (lex_string cs)
          else if take 4 (c # cs) = ''true'' then Some (JBool True, drop 4 (c # cs))
          else if take 5 (c # cs) = ''false'' then Some (JBool False, drop 5 (c # cs))
          else if take 4 (c # cs) = ''null'' then Some (JNull, drop 4 (c # cs))
          else map_option (\<lambda>(x, r). (JNum x, r)) (lex_number (c # cs)))"
| "parse_elements 0 s = None"
| "parse_elements (Suc n) s =
     (case parse_value n s of
        None \<Rightarrow> None
      | Some (v, r) \<Rightarrow>
          (case dropWhile is_json_space r of
             [] \<Rightarrow> None
           | c # cs \<Rightarrow>
               if c = CHR '','' then map_option (\<lambda>(vs, r'). (v # vs, r')) (parse_elements n cs)
               else if c = CHR '']'' then Some ([v], cs)
               else None))"
| "parse_members 0 s = None"
| "parse_members (Suc n) s =
     (case dropWhile is_json_space s of
        [] \<Rightarrow> None
      | q # qs \<Rightarrow>
          if q \<noteq> CHR 0x22 then None
          else
            (case lex_string qs of
               None \<Rightarrow> None
             | Some (k, r) \<Rightarrow>
                 (case dropWhile is_json_space r of
                    [] \<Rightarrow> None
                  | c # cs \<Rightarrow>
                      if c \<noteq> CHR '':'' then None
                      else
                        (case parse_value n cs of
                           None \<Rightarrow> None
                         | Some (v, r') \<Rightarrow>
                             (case dropWhile is_json_space r' of
                                [] \<Rightarrow> None
                              | e # es \<Rightarrow>
                                  if e = CHR '','' then
                                    map_option (\<lambda>(ms, r''). ((k, v) # ms, r'')) (parse_members n es)
                                  else if e = CHR ''}'' then Some ([(k, v)], es)
                                  else None)))))"

definition members_of :: "(string \<times> json) list \<Rightarrow> (string \<times> json) list" where
  "members_of kvs = foldl (\<lambda>ms (k, v). set_member k v ms) [] kvs"

fun normalise :: "json \<Rightarrow> json" where
  "normalise (JArr xs) = JArr (map normalise xs)"
| "normalise (JObj kvs) = JObj (members_of (map (\<lambda>(k, v). (k, normalise v)) kvs))"
| "normalise v = v"

definition JSON_parse_text :: "string \<Rightarrow> thrown + json" where
  "JSON_parse_text s =
     (case parse_value (Suc (length s)) s of
        None \<Rightarrow> Inl (SyntaxError ''Unexpected token in JSON'')
      | Some (v, r) \<Rightarrow>
          if dropWhile is_json_space r = [] then Inr (normalise v)
          else Inl (SyntaxError ''Unexpected token in JSON''))"

section \<open>Sample values\<close>

text \<open>The complete analysis and the in-limits post of the repository's test suite.\<close>

definition hvac_analysis :: NicheAnalysisResult where
  "hvac_analysis =
    \<lparr>industry = ''HVAC Services'',
     brandVoice = \<lparr>tone = ''Professional and friendly'',
                   bv_keywords = [''reliable'', ''experienced'', ''certified''],
                   writingStyle = ''Direct and action-oriented''\<rparr>,
     targetAudience = \<lparr>demographics = ''Homeowners aged 35-65'',
                       painPoints = [''High energy bills'', ''Unreliable service'', ''Emergency repairs''],
                       interests = [''Home improvement'', ''Energy efficiency'', ''Comfort'']\<rparr>,
     competitors = [''competitor1.com'', ''competitor2.com'', ''competitor3.com''],
     keywords_list = [''HVAC'', ''air conditioning'', ''heating'', ''repair'', ''installation''],
     contentStrategy = \<lparr>topics = [''Maintenance tips'', ''Energy savings'', ''Seasonal prep'', ''Emergency services''],
                        frequency = 3,
                        bestTimes = [''9:00 AM'', ''12:00 PM'', ''5:00 PM''],
                        platforms = [''facebook'', ''instagram'', ''linkedin'']\<rparr>,
     autopilotConfig = \<lparr>enabled = True,
                        contentTypes = [''tips'', ''case_studies'', ''behind_the_scenes''],
                        postingSchedule = ''Monday, Wednesday, Friday at 9 AM''\<rparr>\<rparr>"

definition instagram_spec :: platform_spec where
  "instagram_spec =
     \<lparr>maxLength = 2200, optimalLength = 150, hashtagLimit = 30,
      bestPractices = ''Use engaging captions, include call-to-action, leverage hashtags strategically''\<rparr>"

definition instagram_post :: "string GeneratedContent" where
  "instagram_post =
     \<lparr>body = ''This is a test post for Instagram with some engaging content!'',
      hashtags = Some [''test'', ''instagram'', ''content''], imageUrl = None,
      imagePrompt = None, platform = ''instagram'', characterCount = 100,
      estimatedReadTime = None\<rparr>"

definition empty_post :: "string GeneratedContent" where
  "empty_post = \<lparr>body = [], hashtags = Some [], imageUrl = None, imagePrompt = None,
                 platform = ''instagram'', characterCount = 0, estimatedReadTime = None\<rparr>"

text \<open>
  A runtime for concrete runs: the model call answers \<open>llm\<close> whatever the prompt,
  the image call answers \<open>img\<close>. The sample requests carry no niche context and the
  sample replies no numbers, so \<^verbatim>\<open>JSON.stringify\<close> and the number formatting are not
  called and are left constant.
\<close>

definition runtime ::
  "(thrown + llm_content list) \<Rightarrow> string option \<Rightarrow> (thrown + string option list option) \<Rightarrow> cg_env" where
  "runtime llm key img =
     \<lparr>invokeLLM = (\<lambda>prompt. llm), JSON_parse = JSON_parse_text,
      JSON_stringify = (\<lambda>v. ''{}''), Number_toString = (\<lambda>x. ''0''),
      OPENAI_API_KEY = key, images_generate = (\<lambda>prompt. img)\<rparr>"

definition twitter_request :: ContentGenerationRequest where
  "twitter_request =
     \<lparr>topic = ''Business growth strategies'', req_platform = ''twitter'',
      req_tone = Some ''professional'', includeImage = False, imageStyle = None,
      nicheContext = None\<rparr>"

definition no_broker :: jq_env where
  "no_broker =
     \<lparr>REDIS_AVAILABLE = False, Queue_loaded = False, Queue_new = (\<lambda>n. None),
      queue_add = (\<lambda>n j d a b. Inl (Error ''Connection is closed.'')),
      queue_getJob = (\<lambda>n k. Some (Inl (Error ''Connection is closed.''))),
      Date_now = 1700000000000\<rparr>"

text \<open>A broker that holds one job, \<open>42\<close>, in the given state.\<close>

definition broker_with_job :: "string \<Rightarrow> jq_env" where
  "broker_with_job state =
     \<lparr>REDIS_AVAILABLE = True, Queue_loaded = True, Queue_new = (\<lambda>n. None),
      queue_add = (\<lambda>n j d a b.
         Inr \<lparr>job_id = Some ''42'', getState = Some (Inr state), returnvalue = None,
              failedReason = None\<rparr>),
      queue_getJob = (\<lambda>n k.
         if k = ''42''
         then Some (Inr (Some \<lparr>job_id = Some ''42'', getState = Some (Inr state),
                               returnvalue = None, failedReason = None\<rparr>))
         else Some (Inr None)),
      Date_now = 1700000000000\<rparr>"

text \<open>A broker that is configured and cannot be reached.\<close>

definition unreachable_broker :: jq_env where
  "unreachable_broker =
     \<lparr>REDIS_AVAILABLE = True, Queue_loaded = True, Queue_new = (\<lambda>n. None),
      queue_add = (\<lambda>n j d a b. Inl (Error ''connect ECONNREFUSED 127.0.0.1:6379'')),
      queue_getJob = (\<lambda>n k. Some (Inl (Error ''connect ECONNREFUSED 127.0.0.1:6379''))),
      Date_now = 1700000000000\<rparr>"

text \<open>
  A broker that is configured and does not answer: a lookup never settles. Its
  enqueueing outcome plays no part in a lookup.
\<close>

definition silent_broker :: jq_env where
  "silent_broker =
     \<lparr>REDIS_AVAILABLE = True, Queue_loaded = True, Queue_new = (\<lambda>n. None),
      queue_add = (\<lambda>n j d a b. Inl (Error ''Connection is closed.'')),
      queue_getJob = (\<lambda>n k. None),
      Date_now = 1700000000000\<rparr>"

text \<open>A broker that answers every lookup with an error reply.\<close>

definition erring_broker :: jq_env where
  "erring_broker =
     \<lparr>REDIS_AVAILABLE = True, Queue_loaded = True, Queue_new = (\<lambda>n. None),
      queue_add = (\<lambda>n j d a b.
         Inl (Error ''WRONGTYPE Operation against a key holding the wrong kind of value'')),
      queue_getJob = (\<lambda>n k.
         Some (Inl (Error ''WRONGTYPE Operation against a key holding the wrong kind of value''))),
      Date_now = 1700000000000\<rparr>"

text \<open>
  Browser runs: the host cannot be resolved; the page loads; the navigation times out
  in a browser whose \<^verbatim>\<open>close()\<close> rejects; the page loads and the first \<^verbatim>\<open>close()\<close>
  rejects.
\<close>

definition unreachable_host :: browser_run where
  "unreachable_host =
     \<lparr>launch = None, newPage = None, setUserAgent = None,
      goto = (\<lambda>url. Some (Error (''net::ERR_NAME_NOT_RESOLVED at '' @ url))),
      page_content = Inr [], page_title = Inr [], meta_elements = Inr [],
      innerText = Inr [], anchor_hrefs = Inr [], browser_close = (\<lambda>k. None)\<rparr>"

definition small_site :: browser_run where
  "small_site =
     \<lparr>launch = None, newPage = None, setUserAgent = None, goto = (\<lambda>url. None),
      page_content = Inr ''<html><head><title>Acme</title></head><body>Hello</body></html>'',
      page_title = Inr ''Acme'',
      meta_elements = Inr [(Some ''description'', None, Some ''Acme HVAC''),
                           (None, Some ''og:title'', Some ''Acme''),
                           (Some ''viewport'', None, None)],
      innerText = Inr ''Hello'',
      anchor_hrefs = Inr [''https://acme.example/about'', ''mailto:hi@acme.example'',
                          ''https://acme.example/about''],
      browser_close = (\<lambda>k. None)\<rparr>"

definition stuck_browser :: browser_run where
  "stuck_browser =
     unreachable_host
       \<lparr>goto := (\<lambda>url. Some (Error ''Navigation timeout of 30000 ms exceeded'')),
        browser_close := (\<lambda>k. Some (Error ''Protocol error: Connection closed.''))\<rparr>"

definition close_rejects_once :: browser_run where
  "close_rejects_once =
     small_site
       \<lparr>browser_close :=
          (\<lambda>k. if k = 0 then Some (Error ''Protocol error: Connection closed.'') else None)\<rparr>"

definition acme_site :: ScrapedSite where
  "acme_site =
     \<lparr>html = ''<html><head><title>Acme</title></head><body>Hello</body></html>'',
      page_text = ''Hello'', title = ''Acme'',
      meta = [(''description'', ''Acme HVAC''), (''og:title'', ''Acme'')],
      links = [''https://acme.example/about'']\<rparr>"


text \<open>A reply of the requested shape, and the content the pipeline makes of it for Twitter.\<close>

definition growth_reply :: string where
  \<open>growth_reply = ''{"body": "Grow with us", "hashtags": ["growth", "smb"]}''\<close>

definition growth_content :: "json GeneratedContent" where
  "growth_content =
     \<lparr>body = ''Grow with us'', hashtags = Some [JStr ''growth'', JStr ''smb''],
      imageUrl = None, imagePrompt = None, platform = ''twitter'', characterCount = 22,
      estimatedReadTime = Some 1\<rparr>"

text \<open>A reply without hashtags, and one whose hashtags are a single string.\<close>

definition body_only_reply :: string where
  \<open>body_only_reply = ''{"body": "Grow with us"}''\<close>

definition string_hashtags_reply :: string where
  \<open>string_hashtags_reply = ''{"hashtags": "#ai #growth"}''\<close>

section \<open>Calls and handlers\<close>

lemma await_Inr [simp]: "await (Inr v) k = k v" by (simp add: await_def)
lemma await_Inl [simp]: "await (Inl e) k = Inl e" by (simp add: await_def)
lemma try_catch_Inr [simp]: "try_catch (Inr v) h = Inr v" by (simp add: try_catch_def)
lemma try_catch_Inl [simp]: "try_catch (Inl e) h = h e" by (simp add: try_catch_def)
lemma perform_None [simp]: "perform None = Inr ()" by (simp add: perform_def)
lemma perform_Some [simp]: "perform (Some e) = Inl e" by (simp add: perform_def)

section \<open>Properties of the validators\<close>

lemma get_property_Own: "map_of obj k = Some v \<Longrightarrow> get_property obj k = Own v"
  by (simp add: get_property_def)

text \<open>
  C2 (as amended). \<^const>\<open>validateAnalysis\<close> reports a result valid exactly when the
  industry label has at least three characters, the brand-voice tone and the audience
  demographics are non-empty, there are at least three brand-voice keywords and three
  content topics, and at least one platform. In particular a result whose lists all
  have three entries or more, whose strings are all non-empty and whose industry label
  has three characters or more is valid, with no issue reported.
\<close>

theorem validateAnalysis_valid_iff:
  "(isValid (validateAnalysis a) \<longleftrightarrow>
      3 \<le> length (industry a) \<and> tone (brandVoice a) \<noteq> [] \<and>
      3 \<le> length (bv_keywords (brandVoice a)) \<and>
      demographics (targetAudience a) \<noteq> [] \<and>
      3 \<le> length (topics (contentStrategy a)) \<and>
      1 \<le> length (platforms (contentStrategy a))) \<and>
   (spec_lists_and_strings_ok a \<and> 3 \<le> length (industry a) \<longrightarrow>
      validateAnalysis a = \<lparr>isValid = True, issues = []\<rparr>)"
  unfolding validateAnalysis_def spec_lists_and_strings_ok_def Let_def
  by (cases "industry a") (auto simp: Suc_le_eq not_less)

theorem validateAnalysis_valid_iff_witness:
  "spec_lists_and_strings_ok hvac_analysis \<and> 3 \<le> length (industry hvac_analysis) \<and>
   validateAnalysis hvac_analysis = \<lparr>isValid = True, issues = []\<rparr>"
proof -
  have h: "spec_lists_and_strings_ok hvac_analysis \<and> 3 \<le> length (industry hvac_analysis)"
    by (simp add: spec_lists_and_strings_ok_def hvac_analysis_def)
  with validateAnalysis_valid_iff [of hvac_analysis] show ?thesis by blast
qed

text \<open>
  C2 as stated fails in both directions: with the industry label \<open>ab\<close> every list
  has three entries and every string is non-empty, yet the result is invalid; with
  no competitors listed the result is valid.
\<close>

theorem validateAnalysis_spec_counterexample:
  "spec_lists_and_strings_ok (hvac_analysis\<lparr>industry := ''ab''\<rparr>) \<and>
   \<not> isValid (validateAnalysis (hvac_analysis\<lparr>industry := ''ab''\<rparr>)) \<and>
   isValid (validateAnalysis (hvac_analysis\<lparr>competitors := []\<rparr>)) \<and>
   \<not> spec_lists_and_strings_ok (hvac_analysis\<lparr>competitors := []\<rparr>)"
  by (simp add: spec_lists_and_strings_ok_def validateAnalysis_def hvac_analysis_def)

text \<open>
  C3 (as amended). For a platform of the table, content whose character count is at
  most the platform's maximum, whose hashtags (when present) number at most the
  platform's limit, and whose body is not empty after trimming, is valid with no
  issue.
\<close>

theorem validateContent_within_limits:
  assumes "map_of PLATFORM_SPECS (platform c) = Some specs"
    and "characterCount c \<le> int (maxLength specs)"
    and "(case hashtags c of None \<Rightarrow> 0 | Some hs \<Rightarrow> length hs) \<le> hashtagLimit specs"
    and "trim (body c) \<noteq> []"
  shows "validateContent c = \<lparr>isValid = True, issues = []\<rparr>"
proof -
  have b: "body c \<noteq> []" using assms(4) by (auto simp: trim_def)
  show ?thesis
    using assms b
    by (cases "hashtags c") (simp_all add: validateContent_def get_property_Own Let_def)
qed

theorem validateContent_within_limits_witness:
  "map_of PLATFORM_SPECS (platform instagram_post) = Some instagram_spec \<and>
   characterCount instagram_post \<le> int (maxLength instagram_spec) \<and>
   (case hashtags instagram_post of None \<Rightarrow> 0 | Some hs \<Rightarrow> length hs)
     \<le> hashtagLimit instagram_spec \<and>
   trim (body instagram_post) \<noteq> [] \<and>
   validateContent instagram_post = \<lparr>isValid = True, issues = []\<rparr>"
proof -
  have 1: "map_of PLATFORM_SPECS (platform instagram_post) = Some instagram_spec"
    by (simp add: PLATFORM_SPECS_def instagram_post_def instagram_spec_def)
  have 2: "characterCount instagram_post \<le> int (maxLength instagram_spec)"
    by (simp add: instagram_post_def instagram_spec_def)
  have 3: "(case hashtags instagram_post of None \<Rightarrow> 0 | Some hs \<Rightarrow> length hs)
             \<le> hashtagLimit instagram_spec"
    by (simp add: instagram_post_def instagram_spec_def)
  have 4: "trim (body instagram_post) \<noteq> []"
    by (simp add: instagram_post_def trim_def is_whitespace_def)
  from 1 2 3 4 validateContent_within_limits [OF 1 2 3 4] show ?thesis by blast
qed

text \<open>
  C3 as stated fails on the empty post of the test suite: Instagram, no characters,
  no hashtags, and the validator reports the empty body.
\<close>

theorem validateContent_empty_body_counterexample:
  "map_of PLATFORM_SPECS (platform empty_post) = Some instagram_spec \<and>
   characterCount empty_post \<le> int (maxLength instagram_spec) \<and>
   hashtags empty_post = Some [] \<and>
   validateContent empty_post = \<lparr>isValid = False, issues = [''Content body is empty'']\<rparr>"
  by (simp add: validateContent_def empty_post_def PLATFORM_SPECS_def get_property_def
      instagram_spec_def trim_def)

section \<open>Properties of the job queue\<close>

lemma await_settled_simps [simp]:
  "await_settled None k = None"
  "await_settled (Some (Inl e)) k = Some (Inl e)"
  "await_settled (Some (Inr v)) k = k v"
  by (simp_all add: await_settled_def)

lemma getJobStatus_direct:
  "startsWith k ''direct-'' \<Longrightarrow>
   getJobStatus q queueName k =
     Some (Inr \<lparr>status = ''completed'',
                job_result = Some (JObj [(''message'', JStr ''Job executed directly (no Redis queue)'')]),
                job_error = None\<rparr>)"
  by (simp add: getJobStatus_def)

text \<open>
  C10 (as amended). \<^const>\<open>getJobStatus\<close> never raises. It returns a status record
  unless a broker call it awaits never settles: that is the case exactly when the id
  is not locally tagged, the broker is configured, and \<^verbatim>\<open>getJob\<close> or, for a job found,
  \<^verbatim>\<open>getState\<close> never settles. Without a broker the status is \<open>unknown\<close> with the
  message that Redis is not available; an error thrown by the queue constructor, by
  \<^verbatim>\<open>getJob\<close> or by \<^verbatim>\<open>getState\<close> gives \<open>unknown\<close> with that error's message; a job
  id the broker does not know gives \<open>unknown\<close> with \<open>Job not found\<close>.
\<close>

theorem getJobStatus_never_raises:
  "(\<forall>e. getJobStatus q queueName k \<noteq> Some (Inl e)) \<and>
   (getJobStatus q queueName k = None \<longleftrightarrow>
      \<not> startsWith k ''direct-'' \<and> REDIS_AVAILABLE q \<and> Queue_loaded q \<and>
      Queue_new q queueName = None \<and>
      (queue_getJob q queueName k = None \<or>
       (\<exists>job. queue_getJob q queueName k = Some (Inr (Some job)) \<and> getState job = None))) \<and>
   (\<not> startsWith k ''direct-'' \<and> (\<not> REDIS_AVAILABLE q \<or> \<not> Queue_loaded q) \<longrightarrow>
      getJobStatus q queueName k =
        Some (Inr \<lparr>status = ''unknown'', job_result = None,
                   job_error = Some ''Redis not available''\<rparr>)) \<and>
   (\<not> startsWith k ''direct-'' \<and> REDIS_AVAILABLE q \<and> Queue_loaded q \<longrightarrow>
      (\<forall>e. Queue_new q queueName = Some e \<or>
            (Queue_new q queueName = None \<and> queue_getJob q queueName k = Some (Inl e)) \<or>
            (\<exists>job. Queue_new q queueName = None
                   \<and> queue_getJob q queueName k = Some (Inr (Some job))
                   \<and> getState job = Some (Inl e)) \<longrightarrow>
         getJobStatus q queueName k =
           Some (Inr \<lparr>status = ''unknown'', job_result = None,
                      job_error = Some (error_message e)\<rparr>)) \<and>
      (Queue_new q queueName = None \<and> queue_getJob q queueName k = Some (Inr None) \<longrightarrow>
         getJobStatus q queueName k =
           Some (Inr \<lparr>status = ''unknown'', job_result = None,
                      job_error = Some ''Job not found''\<rparr>)))"
proof (intro conjI)
  show "\<forall>e. getJobStatus q queueName k \<noteq> Some (Inl e)"
    by (auto simp: getJobStatus_def split: option.splits sum.splits)
  show "getJobStatus q queueName k = None \<longleftrightarrow>
      \<not> startsWith k ''direct-'' \<and> REDIS_AVAILABLE q \<and> Queue_loaded q \<and>
      Queue_new q queueName = None \<and>
      (queue_getJob q queueName k = None \<or>
       (\<exists>job. queue_getJob q queueName k = Some (Inr (Some job)) \<and> getState job = None))"
    by (auto simp: getJobStatus_def getJobStatus_try_def await_settled_def
        split: option.splits sum.splits)
  show "\<not> startsWith k ''direct-'' \<and> (\<not> REDIS_AVAILABLE q \<or> \<not> Queue_loaded q) \<longrightarrow>
      getJobStatus q queueName k =
        Some (Inr \<lparr>status = ''unknown'', job_result = None,
                   job_error = Some ''Redis not available''\<rparr>)"
    by (auto simp: getJobStatus_def)
  show "\<not> startsWith k ''direct-'' \<and> REDIS_AVAILABLE q \<and> Queue_loaded q \<longrightarrow>
      (\<forall>e. Queue_new q queueName = Some e \<or>
            (Queue_new q queueName = None \<and> queue_getJob q queueName k = Some (Inl e)) \<or>
            (\<exists>job. Queue_new q queueName = None
                   \<and> queue_getJob q queueName k = Some (Inr (Some job))
                   \<and> getState job = Some (Inl e)) \<longrightarrow>
         getJobStatus q queueName k =
           Some (Inr \<lparr>status = ''unknown'', job_result = None,
                      job_error = Some (error_message e)\<rparr>)) \<and>
      (Queue_new q queueName = None \<and> queue_getJob q queueName k = Some (Inr None) \<longrightarrow>
         getJobStatus q queueName k =
           Some (Inr \<lparr>status = ''unknown'', job_result = None,
                      job_error = Some ''Job not found''\<rparr>))"
    by (auto simp: getJobStatus_def getJobStatus_try_def)
qed

theorem getJobStatus_never_raises_witness:
  "getJobStatus erring_broker ''content-generation'' ''42'' =
     Some (Inr \<lparr>status = ''unknown'', job_result = None,
                job_error = Some ''WRONGTYPE Operation against a key holding the wrong kind of value''\<rparr>) \<and>
   getJobStatus no_broker ''content-generation'' ''42'' =
     Some (Inr \<lparr>status = ''unknown'', job_result = None,
                job_error = Some ''Redis not available''\<rparr>) \<and>
   getJobStatus (broker_with_job ''active'') ''content-generation'' ''7'' =
     Some (Inr \<lparr>status = ''unknown'', job_result = None, job_error = Some ''Job not found''\<rparr>)"
proof -
  let ?m = "''WRONGTYPE Operation against a key holding the wrong kind of value''"
  have a: "\<not> startsWith ''42'' ''direct-''" "\<not> startsWith ''7'' ''direct-''"
    by (simp_all add: startsWith_def)
  have 1: "REDIS_AVAILABLE erring_broker \<and> Queue_loaded erring_broker \<and>
           Queue_new erring_broker ''content-generation'' = None \<and>
           queue_getJob erring_broker ''content-generation'' ''42'' = Some (Inl (Error ?m))"
    by (simp add: erring_broker_def)
  have 2: "\<not> REDIS_AVAILABLE no_broker" by (simp add: no_broker_def)
  have 3: "REDIS_AVAILABLE (broker_with_job ''active'') \<and> Queue_loaded (broker_with_job ''active'') \<and>
           Queue_new (broker_with_job ''active'') ''content-generation'' = None \<and>
           queue_getJob (broker_with_job ''active'') ''content-generation'' ''7'' = Some (Inr None)"
    by (simp add: broker_with_job_def)
  have m: "error_message (Error ?m) = ?m"
    by (simp add: error_message_def Error_def)
  from getJobStatus_never_raises [of erring_broker "''content-generation''" "''42''"] a 1
  have r1: "getJobStatus erring_broker ''content-generation'' ''42'' =
     Some (Inr \<lparr>status = ''unknown'', job_result = None,
                job_error = Some (error_message (Error ?m))\<rparr>)"
    by blast
  from getJobStatus_never_raises [of no_broker "''content-generation''" "''42''"] a 2
  have r2: "getJobStatus no_broker ''content-generation'' ''42'' =
     Some (Inr \<lparr>status = ''unknown'', job_result = None,
                job_error = Some ''Redis not available''\<rparr>)"
    by blast
  from getJobStatus_never_raises [of "broker_with_job ''active''" "''content-generation''" "''7''"] a 3
  have r3: "getJobStatus (broker_with_job ''active'') ''content-generation'' ''7'' =
     Some (Inr \<lparr>status = ''unknown'', job_result = None, job_error = Some ''Job not found''\<rparr>)"
    by blast
  from r1 r2 r3 m show ?thesis by simp
qed

text \<open>
  C10 as stated fails on a broker that is configured and does not answer: the
  \<^verbatim>\<open>getJob\<close> promise never settles, and \<^const>\<open>getJobStatus\<close> returns no record.
\<close>

theorem getJobStatus_unanswered_counterexample:
  "REDIS_AVAILABLE silent_broker \<and> Queue_loaded silent_broker \<and>
   queue_getJob silent_broker ''content-generation'' ''42'' = None \<and>
   getJobStatus silent_broker ''content-generation'' ''42'' = None"
  by (simp add: getJobStatus_def getJobStatus_try_def silent_broker_def startsWith_def)

text \<open>
  C8. The code at a job that waits for its retry, in the broker's state \<open>delayed\<close>:
  the status returned is \<open>delayed\<close>, which is none of the five values of the claim
  and none of the values of the declared return type.
\<close>

theorem getJobStatus_delayed:
  "getJobStatus (broker_with_job ''delayed'') ''content-generation'' ''42'' =
     Some (Inr \<lparr>status = ''delayed'', job_result = None, job_error = None\<rparr>) \<and>
   ''delayed'' \<notin> {''pending'', ''active'', ''completed'', ''failed'', ''unknown''} \<and>
   ''delayed'' \<notin> set declared_statuses"
  by (simp add: getJobStatus_def getJobStatus_try_def broker_with_job_def startsWith_def
      declared_statuses_def)

theorem getJobStatus_delayed_witness:
  "map_option (map_sum error_name status)
     (getJobStatus (broker_with_job ''delayed'') ''content-generation'' ''42'')
     = Some (Inr ''delayed'')"
  using getJobStatus_delayed by simp

section \<open>Properties of the page scraper\<close>

lemma scrape_small_site: "scrape_page small_site ''https://acme.example'' = Inr acme_site"
  by (simp add: scrape_page_def small_site_def meta_of_elements_def first_nonempty_def
      unique_def startsWith_def acme_site_def)

text \<open>
  C6 (as amended). When \<^verbatim>\<open>browser.close()\<close> resolves, \<^const>\<open>scrapeWebsite\<close> leaves as
  many browser processes alive as it found, on every path: a failed launch starts none
  and no \<^verbatim>\<open>close()\<close> is called; after a launch \<^verbatim>\<open>close()\<close> is called exactly once,
  success returns the scraped site, and any failing step (navigation timeout, name
  resolution, a crashed browser) raises the error \<open>Failed to scrape website: \<dots>\<close>.
\<close>

theorem scrapeWebsite_releases_browser:
  assumes "browser_close run (close_calls st) = None"
  shows "alive (snd (scrapeWebsite run url st)) = alive st \<and>
         close_calls (snd (scrapeWebsite run url st)) =
           (case launch run of Some e \<Rightarrow> close_calls st | None \<Rightarrow> Suc (close_calls st)) \<and>
         fst (scrapeWebsite run url st) =
           (case launch run of
              Some e \<Rightarrow> Inl (scrape_failure e)
            | None \<Rightarrow>
                (case scrape_page run url of
                   Inl e \<Rightarrow> Inl (scrape_failure e)
                 | Inr site \<Rightarrow> Inr site))"
  using assms
  by (cases "launch run"; cases "scrape_page run url")
     (simp_all add: scrapeWebsite_def scrape_catch_def puppeteer_launch_def close_browser_def)

theorem scrapeWebsite_releases_browser_witness:
  "browser_close unreachable_host (close_calls \<lparr>alive = 0, close_calls = 0\<rparr>) = None \<and>
   scrapeWebsite unreachable_host ''https://nonexistent.invalid'' \<lparr>alive = 0, close_calls = 0\<rparr> =
     (Inl (Error ''Failed to scrape website: net::ERR_NAME_NOT_RESOLVED at https://nonexistent.invalid''),
      \<lparr>alive = 0, close_calls = 1\<rparr>) \<and>
   browser_close small_site (close_calls \<lparr>alive = 0, close_calls = 0\<rparr>) = None \<and>
   scrapeWebsite small_site ''https://acme.example'' \<lparr>alive = 0, close_calls = 0\<rparr> =
     (Inr acme_site, \<lparr>alive = 0, close_calls = 1\<rparr>)"
proof -
  let ?st = "\<lparr>alive = 0, close_calls = 0\<rparr>"
  have c1: "browser_close unreachable_host (close_calls ?st) = None"
    by (simp add: unreachable_host_def)
  have c2: "browser_close small_site (close_calls ?st) = None" by (simp add: small_site_def)
  have p1: "launch unreachable_host = None \<and>
            scrape_page unreachable_host ''https://nonexistent.invalid'' =
            Inl (Error ''net::ERR_NAME_NOT_RESOLVED at https://nonexistent.invalid'')"
    by (simp add: scrape_page_def unreachable_host_def)
  have p2: "launch small_site = None" by (simp add: small_site_def)
  have f: "scrape_failure (Error ''net::ERR_NAME_NOT_RESOLVED at https://nonexistent.invalid'') =
           Error ''Failed to scrape website: net::ERR_NAME_NOT_RESOLVED at https://nonexistent.invalid''"
    by (simp add: scrape_failure_def error_message_def Error_def)
  from scrapeWebsite_releases_browser [OF c1, of "''https://nonexistent.invalid''"] p1 f
  have r1: "scrapeWebsite unreachable_host ''https://nonexistent.invalid'' ?st =
     (Inl (Error ''Failed to scrape website: net::ERR_NAME_NOT_RESOLVED at https://nonexistent.invalid''),
      \<lparr>alive = 0, close_calls = 1\<rparr>)"
    by (simp add: prod_eq_iff browsers.equality)
  from scrapeWebsite_releases_browser [OF c2, of "''https://acme.example''"] p2 scrape_small_site
  have r2: "scrapeWebsite small_site ''https://acme.example'' ?st =
     (Inr acme_site, \<lparr>alive = 0, close_calls = 1\<rparr>)"
    by (simp add: prod_eq_iff browsers.equality)
  from c1 c2 r1 r2 show ?thesis by blast
qed

text \<open>
  C6 as stated fails when \<^verbatim>\<open>browser.close()\<close> rejects. After a navigation timeout the
  rejection of the \<^verbatim>\<open>close()\<close> in the \<^verbatim>\<open>catch\<close> block leaves the function instead of
  the scrape error, and the browser stays alive. After a clean scrape the rejection of
  the first \<^verbatim>\<open>close()\<close> is reported as a scrape failure, although the second
  \<^verbatim>\<open>close()\<close> ends the browser.
\<close>

theorem scrapeWebsite_close_rejects_counterexample:
  "scrapeWebsite stuck_browser ''https://acme.example'' \<lparr>alive = 0, close_calls = 0\<rparr> =
     (Inl (Error ''Protocol error: Connection closed.''), \<lparr>alive = 1, close_calls = 1\<rparr>) \<and>
   scrape_page close_rejects_once ''https://acme.example'' = Inr acme_site \<and>
   scrapeWebsite close_rejects_once ''https://acme.example'' \<lparr>alive = 0, close_calls = 0\<rparr> =
     (Inl (Error ''Failed to scrape website: Protocol error: Connection closed.''),
      \<lparr>alive = 0, close_calls = 2\<rparr>)"
proof -
  have s: "scrape_page close_rejects_once ''https://acme.example'' = Inr acme_site"
    using scrape_small_site by (simp add: scrape_page_def close_rejects_once_def)
  have 1: "scrapeWebsite stuck_browser ''https://acme.example'' \<lparr>alive = 0, close_calls = 0\<rparr> =
     (Inl (Error ''Protocol error: Connection closed.''), \<lparr>alive = 1, close_calls = 1\<rparr>)"
    by (simp add: scrapeWebsite_def scrape_catch_def puppeteer_launch_def close_browser_def
        scrape_page_def stuck_browser_def unreachable_host_def)
  have l: "launch close_rejects_once = None"
    by (simp add: close_rejects_once_def small_site_def)
  have c: "browser_close close_rejects_once 0 = Some (Error ''Protocol error: Connection closed.'')"
          "browser_close close_rejects_once (Suc 0) = None"
    by (simp_all add: close_rejects_once_def)
  have 2: "scrapeWebsite close_rejects_once ''https://acme.example'' \<lparr>alive = 0, close_calls = 0\<rparr> =
     (Inl (Error ''Failed to scrape website: Protocol error: Connection closed.''),
      \<lparr>alive = 0, close_calls = 2\<rparr>)"
    by (simp add: scrapeWebsite_def scrape_catch_def puppeteer_launch_def close_browser_def
        s l c scrape_failure_def error_message_def Error_def)
  from 1 s 2 show ?thesis by blast
qed

section \<open>Properties of content generation\<close>

lemma generateImage_never_raises: "\<exists>u. generateImage env p st = Inr u"
  by (cases "images_generate env (image_service_prompt p st)") (auto simp: generateImage_def)

lemma parse_growth:
  "JSON_parse_text growth_reply =
     Inr (JObj [(''body'', JStr ''Grow with us''), (''hashtags'', JArr [JStr ''growth'', JStr ''smb''])])"
  unfolding growth_reply_def by code_simp

lemma build_prompt_defined:
  "specs \<noteq> Undefined \<Longrightarrow> \<exists>p. build_prompt env request specs t = Inr p"
  by (cases specs) (simp_all add: build_prompt_def)

lemma prompt_for_defined:
  "get_property PLATFORM_SPECS (req_platform request) \<noteq> Undefined
     \<Longrightarrow> \<exists>p. prompt_for env request = Inr p"
  unfolding prompt_for_def Let_def by (rule build_prompt_defined)

lemma prompt_for_table_key:
  "map_of PLATFORM_SPECS (req_platform request) = Some sp \<Longrightarrow> \<exists>p. prompt_for env request = Inr p"
  by (rule prompt_for_defined) (simp add: get_property_Own)

lemma twitter_in_table:
  "map_of PLATFORM_SPECS (req_platform (twitter_request\<lparr>includeImage := flag\<rparr>)) =
     Some \<lparr>maxLength = 280, optimalLength = 240, hashtagLimit = 3,
        bestPractices = ''Be concise, use threads for longer content, include relevant hashtags''\<rparr>"
  by (simp add: twitter_request_def PLATFORM_SPECS_def)

lemma generateContent_after_parse:
  assumes "prompt_for env request = Inr prompt"
    and "invokeLLM env prompt = Inr (content # others)"
    and "content_truthy content"
    and "parsedContent env (content_text env content) = Inr parsed"
  shows "generateContent env request =
           try_catch (content_of_parsed env (req_platform request) parsed)
             (\<lambda>error. Inl (Error (''Content generation failed: '' @ error_message error)))"
  using assms by (simp add: generateContent_def generateContent_try_def)

lemma parsedContent_direct:
  "JSON_parse env t = Inr v \<Longrightarrow> parsedContent env t = Inr v"
  by (simp add: parsedContent_def parse_reply_def)

lemma growth_content_of_parsed:
  "content_of_parsed (runtime llm key img) ''twitter''
     (JObj [(''body'', JStr ''Grow with us''), (''hashtags'', JArr [JStr ''growth'', JStr ''smb''])])
   = Inr growth_content"
  by (simp add: content_of_parsed_def or_default_def growth_content_def runtime_def)

lemma growth_run:
  "generateContent (runtime (Inr [ContentText growth_reply]) key img)
     (twitter_request\<lparr>includeImage := flag\<rparr>) = Inr growth_content"
proof -
  let ?env = "runtime (Inr [ContentText growth_reply]) key img"
  let ?req = "twitter_request\<lparr>includeImage := flag\<rparr>"
  obtain p where p: "prompt_for ?env ?req = Inr p"
    using prompt_for_table_key [OF twitter_in_table] by blast
  have 1: "invokeLLM ?env p = Inr (ContentText growth_reply # [])" by (simp add: runtime_def)
  have 2: "content_truthy (ContentText growth_reply)"
    by (simp add: content_truthy_def growth_reply_def)
  have 3: "parsedContent ?env (content_text ?env (ContentText growth_reply)) =
     Inr (JObj [(''body'', JStr ''Grow with us''), (''hashtags'', JArr [JStr ''growth'', JStr ''smb''])])"
    by (rule parsedContent_direct) (simp add: content_text_def runtime_def parse_growth)
  have 4: "req_platform ?req = ''twitter''" by (simp add: twitter_request_def)
  show ?thesis
    using generateContent_after_parse [OF p 1 2 3] growth_content_of_parsed [of "Inr [ContentText growth_reply]" key img]
    by (simp add: 4)
qed

text \<open>
  C7. Image generation never makes the pipeline fail: \<^const>\<open>generateContentWithImage\<close>
  fails exactly when \<^const>\<open>generateContent\<close> does, with the same error. When an image
  is requested and the image key is not configured or the image call fails, the
  generated content is returned with no image URL (and with the image prompt recorded).
\<close>

theorem image_failure_is_swallowed:
  "(\<forall>e. generateContentWithImage env request = Inl e \<longleftrightarrow> generateContent env request = Inl e) \<and>
   (includeImage request \<and>
    (OPENAI_API_KEY env = None \<or> OPENAI_API_KEY env = Some [] \<or>
     (\<exists>e. images_generate env
             (image_service_prompt (image_prompt_of request) (imageStyle request)) = Inl e))
    \<longrightarrow> generateContentWithImage env request =
          (case generateContent env request of
             Inl e \<Rightarrow> Inl e
           | Inr c \<Rightarrow> Inr (c\<lparr>imageUrl := None, imagePrompt := Some (image_prompt_of request)\<rparr>)))"
proof (intro conjI allI impI)
  fix e
  obtain u where u: "generateImage env (image_prompt_of request) (imageStyle request) = Inr u"
    using generateImage_never_raises by blast
  show "generateContentWithImage env request = Inl e \<longleftrightarrow> generateContent env request = Inl e"
    by (cases "generateContent env request") (simp_all add: generateContentWithImage_def u)
next
  assume a: "includeImage request \<and>
    (OPENAI_API_KEY env = None \<or> OPENAI_API_KEY env = Some [] \<or>
     (\<exists>e. images_generate env
             (image_service_prompt (image_prompt_of request) (imageStyle request)) = Inl e))"
  then have "generateImage env (image_prompt_of request) (imageStyle request) = Inr None"
    by (auto simp: generateImage_def)
  with a show "generateContentWithImage env request =
          (case generateContent env request of
             Inl e \<Rightarrow> Inl e
           | Inr c \<Rightarrow> Inr (c\<lparr>imageUrl := None, imagePrompt := Some (image_prompt_of request)\<rparr>))"
    by (cases "generateContent env request") (simp_all add: generateContentWithImage_def)
qed

theorem image_failure_is_swallowed_witness:
  "includeImage (twitter_request\<lparr>includeImage := True\<rparr>) \<and>
   OPENAI_API_KEY (runtime (Inr [ContentText growth_reply]) None (Inr None)) = None \<and>
   generateContentWithImage (runtime (Inr [ContentText growth_reply]) None (Inr None))
       (twitter_request\<lparr>includeImage := True\<rparr>)
     = Inr (growth_content\<lparr>imageUrl := None, imagePrompt := Some ''Business growth strategies''\<rparr>) \<and>
   images_generate (runtime (Inr [ContentText growth_reply]) (Some ''sk-test'')
                      (Inl (Error ''429 Too Many Requests'')))
       (image_service_prompt (image_prompt_of (twitter_request\<lparr>includeImage := True\<rparr>))
          (imageStyle (twitter_request\<lparr>includeImage := True\<rparr>)))
     = Inl (Error ''429 Too Many Requests'') \<and>
   generateContentWithImage
       (runtime (Inr [ContentText growth_reply]) (Some ''sk-test'') (Inl (Error ''429 Too Many Requests'')))
       (twitter_request\<lparr>includeImage := True\<rparr>)
     = Inr (growth_content\<lparr>imageUrl := None, imagePrompt := Some ''Business growth strategies''\<rparr>)"
proof -
  let ?req = "twitter_request\<lparr>includeImage := True\<rparr>"
  let ?e1 = "runtime (Inr [ContentText growth_reply]) None (Inr None)"
  let ?e2 = "runtime (Inr [ContentText growth_reply]) (Some ''sk-test'') (Inl (Error ''429 Too Many Requests''))"
  have i: "includeImage ?req" by simp
  have k: "OPENAI_API_KEY ?e1 = None" by (simp add: runtime_def)
  have f: "images_generate ?e2 (image_service_prompt (image_prompt_of ?req) (imageStyle ?req))
             = Inl (Error ''429 Too Many Requests'')"
    by (simp add: runtime_def)
  have p: "image_prompt_of ?req = ''Business growth strategies''"
    by (simp add: image_prompt_of_def twitter_request_def)
  have r1: "generateContentWithImage ?e1 ?req =
      Inr (growth_content\<lparr>imageUrl := None, imagePrompt := Some ''Business growth strategies''\<rparr>)"
    using image_failure_is_swallowed [of ?e1 ?req] i k by (simp add: growth_run p)
  have r2: "generateContentWithImage ?e2 ?req =
      Inr (growth_content\<lparr>imageUrl := None, imagePrompt := Some ''Business growth strategies''\<rparr>)"
    using image_failure_is_swallowed [of ?e2 ?req] i f by (simp add: growth_run p)
  from i k f r1 r2 show ?thesis by blast
qed

lemma get_property_Undefined:
  "map_of obj k = None \<Longrightarrow> k \<notin> set Object_prototype_names \<Longrightarrow> get_property obj k = Undefined"
  by (simp add: get_property_def)

text \<open>
  C5 (as amended). For a platform key that is neither in the table nor the name of a
  member every object inherits, \<^const>\<open>generateContent\<close> fails before the model is
  called, whatever the surroundings, with the runtime's \<^verbatim>\<open>TypeError\<close> for reading
  \<^verbatim>\<open>maxLength\<close> of \<^verbatim>\<open>undefined\<close>.
\<close>

theorem generateContent_unknown_platform:
  assumes "map_of PLATFORM_SPECS (req_platform request) = None"
    and "req_platform request \<notin> set Object_prototype_names"
  shows "generateContent env request = Inl (TypeError (cannot_read ''undefined'' ''maxLength''))"
  using assms
  by (simp add: generateContent_def prompt_for_def build_prompt_def get_property_Undefined)

theorem generateContent_unknown_platform_witness:
  "map_of PLATFORM_SPECS (req_platform (twitter_request\<lparr>req_platform := ''mastodon''\<rparr>)) = None \<and>
   req_platform (twitter_request\<lparr>req_platform := ''mastodon''\<rparr>) \<notin> set Object_prototype_names \<and>
   generateContent (runtime (Inr [ContentText growth_reply]) None (Inr None))
       (twitter_request\<lparr>req_platform := ''mastodon''\<rparr>)
     = Inl (TypeError (cannot_read ''undefined'' ''maxLength''))"
proof -
  have 1: "map_of PLATFORM_SPECS (req_platform (twitter_request\<lparr>req_platform := ''mastodon''\<rparr>)) = None"
    by (simp add: PLATFORM_SPECS_def)
  have 2: "req_platform (twitter_request\<lparr>req_platform := ''mastodon''\<rparr>) \<notin> set Object_prototype_names"
    by (simp add: Object_prototype_names_def)
  from 1 2 generateContent_unknown_platform [OF 1 2] show ?thesis by blast
qed

text \<open>
  C5 as stated fails: for the key \<open>mastodon\<close> the failure is a \<^verbatim>\<open>TypeError\<close>, not a
  configuration error; for the key \<open>constructor\<close>, which is not in the table either,
  the lookup finds an inherited member and content is generated.
\<close>

theorem generateContent_not_ConfigurationError_counterexample:
  "map_of PLATFORM_SPECS ''mastodon'' = None \<and>
   generateContent (runtime (Inr [ContentText growth_reply]) None (Inr None))
       (twitter_request\<lparr>req_platform := ''mastodon''\<rparr>)
     = Inl (ErrorObject ''TypeError''
              (''Cannot read properties of undefined (reading '' @ [CHR 0x27] @ ''maxLength''
               @ [CHR 0x27] @ '')'')) \<and>
   ''TypeError'' \<noteq> ''ConfigurationError'' \<and>
   map_of PLATFORM_SPECS ''constructor'' = None \<and>
   generateContent (runtime (Inr [ContentText growth_reply]) None (Inr None))
       (twitter_request\<lparr>req_platform := ''constructor''\<rparr>)
     = Inr (growth_content\<lparr>platform := ''constructor''\<rparr>)"
proof -
  let ?env = "runtime (Inr [ContentText growth_reply]) None (Inr None)"
  let ?req = "twitter_request\<lparr>req_platform := ''constructor''\<rparr>"
  have a: "generateContent ?env (twitter_request\<lparr>req_platform := ''mastodon''\<rparr>)
     = Inl (ErrorObject ''TypeError''
              (''Cannot read properties of undefined (reading '' @ [CHR 0x27] @ ''maxLength''
               @ [CHR 0x27] @ '')''))"
    by (simp add: generateContent_def prompt_for_def build_prompt_def get_property_def
        PLATFORM_SPECS_def Object_prototype_names_def TypeError_def cannot_read_def)
  have g: "get_property PLATFORM_SPECS (req_platform ?req) = Inherited"
    by (simp add: get_property_def PLATFORM_SPECS_def Object_prototype_names_def)
  obtain p where p: "prompt_for ?env ?req = Inr p"
    using prompt_for_defined [of ?req ?env] g by auto
  have 1: "invokeLLM ?env p = Inr (ContentText growth_reply # [])" by (simp add: runtime_def)
  have 2: "content_truthy (ContentText growth_reply)"
    by (simp add: content_truthy_def growth_reply_def)
  have 3: "parsedContent ?env (content_text ?env (ContentText growth_reply)) =
     Inr (JObj [(''body'', JStr ''Grow with us''), (''hashtags'', JArr [JStr ''growth'', JStr ''smb''])])"
    by (rule parsedContent_direct) (simp add: content_text_def runtime_def parse_growth)
  have b: "generateContent ?env ?req = Inr (growth_content\<lparr>platform := ''constructor''\<rparr>)"
    using generateContent_after_parse [OF p 1 2 3]
    by (simp add: content_of_parsed_def or_default_def growth_content_def runtime_def)
  have c: "map_of PLATFORM_SPECS ''mastodon'' = None" "map_of PLATFORM_SPECS ''constructor'' = None"
    by (simp_all add: PLATFORM_SPECS_def)
  from a b c show ?thesis by simp
qed

lemma content_of_parsed_object:
  assumes "or_default (map_of ms ''hashtags'') (JArr []) = JArr tags"
    and "or_default (map_of ms ''body'') (JStr []) = JStr b"
  shows "content_of_parsed env key (JObj ms) =
     Inr \<lparr>body = b, hashtags = Some tags, imageUrl = None, imagePrompt = None, platform = key,
          characterCount =
            int (length b + length (join '' '' (map (join_element (Number_toString env)) tags))),
          estimatedReadTime = Some (int ((length (split_on CHR '' '' b) + 199) div 200))\<rparr>"
  using assms by (simp add: content_of_parsed_def)

lemma or_default_missing: "or_default None d = d"
  by (simp add: or_default_def)

lemma parse_body_only:
  "JSON_parse_text body_only_reply = Inr (JObj [(''body'', JStr ''Grow with us'')])"
  unfolding body_only_reply_def by code_simp

lemma parse_string_hashtags:
  "JSON_parse_text string_hashtags_reply = Inr (JObj [(''hashtags'', JStr ''#ai #growth'')])"
  unfolding string_hashtags_reply_def by code_simp

text \<open>
  C9 (as amended). When the model's reply parses as a JSON object in which \<^verbatim>\<open>body\<close>
  or \<^verbatim>\<open>hashtags\<close> is missing, and the member that is present is a string
  (for \<^verbatim>\<open>body\<close>) or an array (for \<^verbatim>\<open>hashtags\<close>) or falsy, \<^const>\<open>generateContent\<close>
  succeeds: a missing body is the empty string, missing hashtags are the empty
  list, and the character count is the length of the body plus the length of the
  hashtags joined by spaces.
\<close>

theorem generateContent_defaults:
  assumes "prompt_for env request = Inr prompt"
    and "invokeLLM env prompt = Inr (content # others)"
    and "content_truthy content"
    and "parsedContent env (content_text env content) = Inr (JObj ms)"
    and "map_of ms ''body'' = None \<or> map_of ms ''hashtags'' = None"
    and "or_default (map_of ms ''body'') (JStr []) = JStr b"
    and "or_default (map_of ms ''hashtags'') (JArr []) = JArr tags"
  shows "generateContent env request =
     Inr \<lparr>body = b, hashtags = Some tags, imageUrl = None, imagePrompt = None,
          platform = req_platform request,
          characterCount =
            int (length b + length (join '' '' (map (join_element (Number_toString env)) tags))),
          estimatedReadTime = Some (int ((length (split_on CHR '' '' b) + 199) div 200))\<rparr> \<and>
     (map_of ms ''body'' = None \<longrightarrow> b = []) \<and>
     (map_of ms ''hashtags'' = None \<longrightarrow> tags = [])"
proof -
  have "generateContent env request =
          try_catch (content_of_parsed env (req_platform request) (JObj ms))
            (\<lambda>error. Inl (Error (''Content generation failed: '' @ error_message error)))"
    using assms(1-4) by (rule generateContent_after_parse)
  moreover have "map_of ms ''body'' = None \<longrightarrow> b = []"
    using assms(6) by (auto simp: or_default_missing)
  moreover have "map_of ms ''hashtags'' = None \<longrightarrow> tags = []"
    using assms(7) by (auto simp: or_default_missing)
  ultimately show ?thesis
    by (simp add: content_of_parsed_object [OF assms(7) assms(6)])
qed

theorem generateContent_defaults_witness:
  "parsedContent (runtime (Inr [ContentText body_only_reply]) None (Inr None))
       (content_text (runtime (Inr [ContentText body_only_reply]) None (Inr None))
          (ContentText body_only_reply))
     = Inr (JObj [(''body'', JStr ''Grow with us'')]) \<and>
   map_of [(''body'', JStr ''Grow with us'')] ''hashtags'' = None \<and>
   generateContent (runtime (Inr [ContentText body_only_reply]) None (Inr None)) twitter_request
     = Inr \<lparr>body = ''Grow with us'', hashtags = Some [], imageUrl = None, imagePrompt = None,
            platform = ''twitter'', characterCount = 12, estimatedReadTime = Some 1\<rparr>"
proof -
  let ?env = "runtime (Inr [ContentText body_only_reply]) None (Inr None)"
  let ?ms = "[(''body'', JStr ''Grow with us'')]"
  have t: "map_of PLATFORM_SPECS (req_platform twitter_request) =
     Some \<lparr>maxLength = 280, optimalLength = 240, hashtagLimit = 3,
        bestPractices = ''Be concise, use threads for longer content, include relevant hashtags''\<rparr>"
    by (simp add: twitter_request_def PLATFORM_SPECS_def)
  obtain p where p: "prompt_for ?env twitter_request = Inr p"
    using prompt_for_table_key [OF t] by blast
  have 1: "invokeLLM ?env p = Inr (ContentText body_only_reply # [])" by (simp add: runtime_def)
  have 2: "content_truthy (ContentText body_only_reply)"
    by (simp add: content_truthy_def body_only_reply_def)
  have 3: "parsedContent ?env (content_text ?env (ContentText body_only_reply)) = Inr (JObj ?ms)"
    by (rule parsedContent_direct) (simp add: content_text_def runtime_def parse_body_only)
  have 4: "map_of ?ms ''body'' = None \<or> map_of ?ms ''hashtags'' = None" by simp
  have 5: "or_default (map_of ?ms ''body'') (JStr []) = JStr ''Grow with us''"
    by (simp add: or_default_def)
  have 6: "or_default (map_of ?ms ''hashtags'') (JArr []) = JArr []"
    by (simp add: or_default_def)
  have "generateContent ?env twitter_request
     = Inr \<lparr>body = ''Grow with us'', hashtags = Some [], imageUrl = None, imagePrompt = None,
            platform = ''twitter'', characterCount = 12, estimatedReadTime = Some 1\<rparr>"
    using generateContent_defaults [OF p 1 2 3 4 5 6] by (simp add: twitter_request_def)
  with 3 show ?thesis by simp
qed

text \<open>
  C9 as stated fails on a reply without \<^verbatim>\<open>body\<close> whose \<^verbatim>\<open>hashtags\<close> member is one
  string: the string has no \<^verbatim>\<open>join\<close>, and generation fails.
\<close>

theorem generateContent_string_hashtags_counterexample:
  "JSON_parse_text string_hashtags_reply = Inr (JObj [(''hashtags'', JStr ''#ai #growth'')]) \<and>
   map_of [(''hashtags'', JStr ''#ai #growth'')] ''body'' = None \<and>
   generateContent (runtime (Inr [ContentText string_hashtags_reply]) None (Inr None)) twitter_request
     = Inl (Error ''Content generation failed: hashtags.join is not a function'')"
proof -
  let ?env = "runtime (Inr [ContentText string_hashtags_reply]) None (Inr None)"
  have t: "map_of PLATFORM_SPECS (req_platform twitter_request) =
     Some \<lparr>maxLength = 280, optimalLength = 240, hashtagLimit = 3,
        bestPractices = ''Be concise, use threads for longer content, include relevant hashtags''\<rparr>"
    by (simp add: twitter_request_def PLATFORM_SPECS_def)
  obtain p where p: "prompt_for ?env twitter_request = Inr p"
    using prompt_for_table_key [OF t] by blast
  have 1: "invokeLLM ?env p = Inr (ContentText string_hashtags_reply # [])" by (simp add: runtime_def)
  have 2: "content_truthy (ContentText string_hashtags_reply)"
    by (simp add: content_truthy_def string_hashtags_reply_def)
  have 3: "parsedContent ?env (content_text ?env (ContentText string_hashtags_reply)) =
             Inr (JObj [(''hashtags'', JStr ''#ai #growth'')])"
    by (rule parsedContent_direct) (simp add: content_text_def runtime_def parse_string_hashtags)
  have "generateContent ?env twitter_request
     = Inl (Error ''Content generation failed: hashtags.join is not a function'')"
    using generateContent_after_parse [OF p 1 2 3]
    by (simp add: content_of_parsed_def or_default_def TypeError_def error_message_def)
  then show ?thesis by (simp add: parse_string_hashtags)
qed

section \<open>Properties of job submission\<close>

lemma content_of_parsed_platform:
  "content_of_parsed env key parsed = Inr c \<Longrightarrow> platform c = key"
  by (cases "read_member parsed ''body''"; cases "read_member parsed ''hashtags''")
     (auto simp: content_of_parsed_def Let_def split: json.splits)

lemma generateContent_platform:
  assumes "generateContent env request = Inr c"
  shows "platform c = req_platform request"
proof -
  from assms obtain prompt where p: "prompt_for env request = Inr prompt"
    by (cases "prompt_for env request") (auto simp: generateContent_def)
  from assms p have t: "generateContent_try env request prompt = Inr c"
    by (cases "generateContent_try env request prompt") (auto simp: generateContent_def)
  then obtain choices where ch: "invokeLLM env prompt = Inr choices"
    by (cases "invokeLLM env prompt") (auto simp: generateContent_try_def)
  with t obtain content others where co: "choices = content # others"
    by (cases choices) (auto simp: generateContent_try_def)
  from t ch co have tr: "content_truthy content"
    by (auto simp: generateContent_try_def split: if_splits)
  from t ch co tr obtain parsed where
    pa: "parsedContent env (content_text env content) = Inr parsed"
    by (cases "parsedContent env (content_text env content)") (auto simp: generateContent_try_def)
  from t ch co tr pa have "content_of_parsed env (req_platform request) parsed = Inr c"
    by (simp add: generateContent_try_def)
  then show ?thesis by (rule content_of_parsed_platform)
qed

lemma generateContentWithImage_platform:
  assumes "generateContentWithImage env request = Inr r"
  shows "platform r = req_platform request"
proof -
  from assms obtain c where c: "generateContent env request = Inr c"
    by (cases "generateContent env request") (auto simp: generateContentWithImage_def)
  obtain u where u: "generateImage env (image_prompt_of request) (imageStyle request) = Inr u"
    using generateImage_never_raises by blast
  from assms c u have "r = c \<or> r = c\<lparr>imageUrl := u, imagePrompt := Some (image_prompt_of request)\<rparr>"
    by (auto simp: generateContentWithImage_def split: if_splits)
  with generateContent_platform [OF c] show ?thesis by auto
qed

text \<open>
  C1. When no broker is configured, or the queue cannot be constructed, or enqueueing
  throws, \<^const>\<open>addContentGenerationJob\<close> runs the pipeline in the same call: what the
  pipeline returns comes back at once as the result, under a job id that starts with
  \<open>direct-\<close>, and the result's platform is the platform of the request. A
  failure of the pipeline is passed on to the caller as it is.
\<close>

theorem addContentGenerationJob_direct:
  assumes "\<not> REDIS_AVAILABLE q \<or> \<not> Queue_loaded q \<or>
           (\<exists>e. Queue_new q ''content-generation'' = Some e) \<or>
           (\<exists>e. queue_add q ''content-generation'' ''generate'' data 3 2000 = Inl e)"
  shows "addContentGenerationJob q env data =
           (case generateContentWithImage env data of
              Inl e \<Rightarrow> Inl e
            | Inr r \<Rightarrow> Inr \<lparr>jobId = ''direct-'' @ decimal (Date_now q), result = Some r\<rparr>) \<and>
         startsWith (''direct-'' @ decimal (Date_now q)) ''direct-'' \<and>
         (\<forall>r. generateContentWithImage env data = Inr r \<longrightarrow> platform r = req_platform data)"
proof -
  have d: "direct_execution q env data =
           (case generateContentWithImage env data of
              Inl e \<Rightarrow> Inl e
            | Inr r \<Rightarrow> Inr \<lparr>jobId = ''direct-'' @ decimal (Date_now q), result = Some r\<rparr>)"
    by (cases "generateContentWithImage env data")
       (simp_all add: direct_execution_def executeContentGeneration_def)
  have "addContentGenerationJob q env data = direct_execution q env data"
  proof (cases "\<not> REDIS_AVAILABLE q \<or> \<not> Queue_loaded q")
    case True
    then show ?thesis by (auto simp: addContentGenerationJob_def)
  next
    case False
    with assms have "(\<exists>e. Queue_new q ''content-generation'' = Some e) \<or>
           (\<exists>e. queue_add q ''content-generation'' ''generate'' data 3 2000 = Inl e)" by blast
    with False show ?thesis
      by (cases "Queue_new q ''content-generation''") (auto simp: addContentGenerationJob_def)
  qed
  with d show ?thesis
    by (auto simp: startsWith_def dest: generateContentWithImage_platform)
qed

theorem addContentGenerationJob_direct_witness:
  "\<not> REDIS_AVAILABLE no_broker \<and>
   addContentGenerationJob no_broker (runtime (Inr [ContentText growth_reply]) None (Inr None))
       twitter_request
     = Inr \<lparr>jobId = ''direct-1700000000000'', result = Some growth_content\<rparr> \<and>
   platform growth_content = req_platform twitter_request \<and>
   queue_add unreachable_broker ''content-generation'' ''generate'' twitter_request 3 2000
     = Inl (Error ''connect ECONNREFUSED 127.0.0.1:6379'') \<and>
   addContentGenerationJob unreachable_broker
       (runtime (Inr [ContentText growth_reply]) None (Inr None)) twitter_request
     = Inr \<lparr>jobId = ''direct-1700000000000'', result = Some growth_content\<rparr>"
proof -
  let ?env = "runtime (Inr [ContentText growth_reply]) None (Inr None)"
  have n: "\<not> REDIS_AVAILABLE no_broker" by (simp add: no_broker_def)
  have u: "queue_add unreachable_broker ''content-generation'' ''generate'' twitter_request 3 2000
     = Inl (Error ''connect ECONNREFUSED 127.0.0.1:6379'')"
    by (simp add: unreachable_broker_def)
  have g: "generateContent ?env twitter_request = Inr growth_content"
    using growth_run [of None "Inr None" False] by (simp add: twitter_request_def)
  have ni: "\<not> includeImage twitter_request" by (simp add: twitter_request_def)
  have w: "generateContentWithImage ?env twitter_request = Inr growth_content"
    by (simp add: generateContentWithImage_def g ni)
  have t: "decimal (Date_now no_broker) = ''1700000000000''"
          "decimal (Date_now unreachable_broker) = ''1700000000000''"
    by (simp_all add: no_broker_def unreachable_broker_def decimal.simps digit_char_def)
  have r1: "addContentGenerationJob no_broker ?env twitter_request
     = Inr \<lparr>jobId = ''direct-1700000000000'', result = Some growth_content\<rparr>"
    using addContentGenerationJob_direct [of no_broker twitter_request ?env] n by (simp add: w t)
  have r2: "addContentGenerationJob unreachable_broker ?env twitter_request
     = Inr \<lparr>jobId = ''direct-1700000000000'', result = Some growth_content\<rparr>"
    using addContentGenerationJob_direct [of unreachable_broker twitter_request ?env] u
    by (simp add: w t)
  have pl: "platform growth_content = req_platform twitter_request"
    by (simp add: growth_content_def twitter_request_def)
  from n u r1 r2 pl show ?thesis by blast
qed

section \<open>Properties of the reply parser\<close>

lemma dropWhile_upto_first:
  "c \<notin> set xs \<Longrightarrow> dropWhile (\<lambda>x. x \<noteq> c) (xs @ c # ys) = c # ys"
  by (induction xs) auto

lemma match_braces_wrapped:
  assumes "CHR ''{'' \<notin> set p" and "CHR ''}'' \<notin> set q"
  shows "match_braces (p @ (CHR ''{'' # inner @ ''}'') @ q) = Some (CHR ''{'' # inner @ ''}'')"
  using assms by (simp add: match_braces_def dropWhile_upto_first)

lemma parse_wrapped_growth:
  "JSON_parse_text (''Here is the post: '' @ growth_reply @ '' Enjoy!'')
     = Inl (SyntaxError ''Unexpected token in JSON'')"
  unfolding growth_reply_def by code_simp

lemma parse_empty_object: "JSON_parse_text ''{}'' = Inr (JObj [])"
  by code_simp

lemma parse_braces_in_prefix:
  "JSON_parse_text ''Draft {v1}: {}'' = Inl (SyntaxError ''Unexpected token in JSON'')"
  "JSON_parse_text ''{v1}: {}'' = Inl (SyntaxError ''Unexpected token in JSON'')"
  by code_simp+

lemma parse_braces_in_suffix:
  "JSON_parse_text ''{} (see {notes})'' = Inl (SyntaxError ''Unexpected token in JSON'')"
  "JSON_parse_text ''{} (see {notes}'' = Inl (SyntaxError ''Unexpected token in JSON'')"
  by code_simp+

text \<open>
  C4 (as amended). Let \<open>s\<close> begin with an opening and end with a closing brace and
  be accepted by \<^verbatim>\<open>JSON.parse\<close>, let the prefix \<open>p\<close> hold no opening brace and the
  suffix \<open>q\<close> no closing brace. Then the parsing step succeeds on \<open>s\<close> and on
  \<open>p + s + q\<close>: on \<open>s\<close> it yields the parse of \<open>s\<close>; on the wrapped text it yields
  the same value through the brace match, which is exactly \<open>s\<close>, unless the wrapped
  text is valid JSON by itself, in which case its own parse is returned. This holds for
  both callers, whatever the message for a missing match.
\<close>

theorem parse_reply_wrapped:
  assumes "JSON_parse env s = Inr v"
    and "s = CHR ''{'' # inner @ ''}''"
    and "CHR ''{'' \<notin> set p"
    and "CHR ''}'' \<notin> set q"
  shows "parse_reply env no_match_message s = Inr v \<and>
         parse_reply env no_match_message (p @ s @ q) =
           (case JSON_parse env (p @ s @ q) of Inr w \<Rightarrow> Inr w | Inl e \<Rightarrow> Inr v)"
proof -
  have "match_braces (p @ s @ q) = Some s"
    unfolding assms(2) using assms(3,4) by (rule match_braces_wrapped)
  then show ?thesis
    using assms(1)
    by (cases "JSON_parse env (p @ s @ q)") (simp_all add: parse_reply_def)
qed

theorem parse_reply_wrapped_witness:
  "JSON_parse (runtime (Inr []) None (Inr None)) growth_reply =
     Inr (JObj [(''body'', JStr ''Grow with us''), (''hashtags'', JArr [JStr ''growth'', JStr ''smb''])]) \<and>
   CHR ''{'' \<notin> set ''Here is the post: '' \<and> CHR ''}'' \<notin> set '' Enjoy!'' \<and>
   parsedContent (runtime (Inr []) None (Inr None)) growth_reply =
     Inr (JObj [(''body'', JStr ''Grow with us''), (''hashtags'', JArr [JStr ''growth'', JStr ''smb''])]) \<and>
   parsedContent (runtime (Inr []) None (Inr None)) (''Here is the post: '' @ growth_reply @ '' Enjoy!'') =
     Inr (JObj [(''body'', JStr ''Grow with us''), (''hashtags'', JArr [JStr ''growth'', JStr ''smb''])])"
proof -
  let ?env = "runtime (Inr []) None (Inr None)"
  let ?v = "JObj [(''body'', JStr ''Grow with us''), (''hashtags'', JArr [JStr ''growth'', JStr ''smb''])]"
  have 1: "JSON_parse ?env growth_reply = Inr ?v" by (simp add: runtime_def parse_growth)
  have 2: \<open>growth_reply = CHR ''{'' # ''"body": "Grow with us", "hashtags": ["growth", "smb"]'' @ ''}''\<close>
    by (simp add: growth_reply_def)
  have 3: "CHR ''{'' \<notin> set ''Here is the post: ''" by simp
  have 4: "CHR ''}'' \<notin> set '' Enjoy!''" by simp
  have 5: "JSON_parse ?env (''Here is the post: '' @ growth_reply @ '' Enjoy!'')
             = Inl (SyntaxError ''Unexpected token in JSON'')"
    by (simp only: runtime_def cg_env.simps parse_wrapped_growth)
  from parse_reply_wrapped [OF 1 2 3 4, of "''Could not parse Claude response as JSON''"]
  have "parsedContent ?env growth_reply = Inr ?v \<and>
        parsedContent ?env (''Here is the post: '' @ growth_reply @ '' Enjoy!'') = Inr ?v"
    unfolding parsedContent_def by (simp only: 5 sum.case)
  with 1 3 4 show ?thesis by blast
qed

text \<open>
  C4 as stated fails when the prose holds a brace: the match runs from the first
  opening brace of the text to its last closing brace, here \<open>{v1}: {}\<close> and
  \<open>{} (see {notes}\<close>, and parsing that fails although \<open>{}\<close> alone parses.
\<close>

theorem parse_reply_braces_in_prose_counterexample:
  "parsedContent (runtime (Inr []) None (Inr None)) ''{}'' = Inr (JObj []) \<and>
   map_sum error_name id
       (parsedContent (runtime (Inr []) None (Inr None)) (''Draft {v1}: '' @ ''{}'' @ []))
     = Inl ''SyntaxError'' \<and>
   map_sum error_name id
       (parsedContent (runtime (Inr []) None (Inr None)) ([] @ ''{}'' @ '' (see {notes})''))
     = Inl ''SyntaxError''"
proof -
  have m1: "match_braces ''Draft {v1}: {}'' = Some ''{v1}: {}''"
    by (simp add: match_braces_def)
  have m2: "match_braces ''{} (see {notes})'' = Some ''{} (see {notes}''"
    by (simp add: match_braces_def)
  show ?thesis
    by (simp add: parsedContent_def parse_reply_def runtime_def parse_empty_object
        parse_braces_in_prefix parse_braces_in_suffix m1 m2 SyntaxError_def)
qed


end
